theory Spec2Isabelle
  imports Complex_Main
begin

section \<open>Values, rows and the derived store\<close>

text \<open>
  The log processors are TypeScript functions over a Knex database handle. A decoded log
  (\<open>FormattedEventLog\<close>), a table row and a published payload are all plain JavaScript
  objects: finite maps from field names to values. A field that an object does not have
  reads as \<open>undefined\<close>.
\<close>

datatype jsval = Undefined | Null | Str string | Num rat | Bool bool | Arr "jsval list"

type_synonym obj = "string \<rightharpoonup> jsval"

definition field :: "obj \<Rightarrow> string \<Rightarrow> jsval" where
  "field ob k = (case ob k of None \<Rightarrow> Undefined | Some v \<Rightarrow> v)"

fun num_of :: "jsval \<Rightarrow> rat" where
  "num_of (Num q) = q"
| "num_of _ = 0"

datatype error = Error string

datatype verb = Select | Insert | Update | Delete

text \<open>
  What a processor does to the outside, in the order it does it: a query issued on a
  table (through the transaction handle \<open>Some trx\<close> when the source writes
  \<open>db.transacting(trx)\<close>, through \<open>db\<close> itself otherwise), and an event handed to
  \<open>augurEmitter.emit\<close>.
\<close>

datatype effect = Sql "nat option" verb string | Emit jsval obj

text \<open>
  The world a processor runs in. \<open>tables\<close> is the content of the database by table name;
  a table is the list of its rows in insertion order. \<open>faults\<close> is the answer of Knex and
  the database to the queries still to come, one entry per query: \<open>Some e\<close> makes the
  query reject with \<open>e\<close> and change nothing; the empty list means that every further
  query succeeds. The schema of the tables is not among the sources: whatever makes a
  query fail (a lost connection, a constraint of the schema, a binding Knex refuses) is a
  fault. \<open>trace\<close> is what was done so far. \<open>pending\<close> holds the markets for which
  \<open>updateOpenInterest\<close> was called and its promise dropped.
\<close>

record world =
  tables :: "string \<Rightarrow> obj list"
  faults :: "error option list"
  trace :: "effect list"
  pending :: "jsval list"

type_synonym 'a promise = "world \<Rightarrow> (error + 'a) \<times> world"

definition resolve :: "'a \<Rightarrow> 'a promise" where
  "resolve x w = (Inr x, w)"

definition throw :: "error \<Rightarrow> 'a promise" where
  "throw e w = (Inl e, w)"

text \<open>\<open>await p\<close> followed by the rest of an async function: a rejection of \<open>p\<close> leaves the function.\<close>

definition await :: "'a promise \<Rightarrow> ('a \<Rightarrow> 'b promise) \<Rightarrow> 'b promise" where
  "await p k w = (case p w of (Inl e, w1) \<Rightarrow> (Inl e, w1) | (Inr x, w1) \<Rightarrow> k x w1)"

subsection \<open>The Knex queries the processors use\<close>

definition run_query :: "nat option \<Rightarrow> verb \<Rightarrow> string \<Rightarrow> world \<Rightarrow> error option \<times> world" where
  "run_query t v tbl w =
     (case faults w of
        [] \<Rightarrow> (None, w\<lparr>trace := trace w @ [Sql t v tbl]\<rparr>)
      | f # fs \<Rightarrow> (f, w\<lparr>faults := fs, trace := trace w @ [Sql t v tbl]\<rparr>))"

text \<open>
  \<open>.where(k, v)\<close> and \<open>.where({k1: v1, k2: v2})\<close>: every named column equals its value.
  Knex refuses to compile a where-clause with an \<open>undefined\<close> binding: a run on a log
  that lacks a field a processor binds is a run with a fault, not one with \<open>faults = []\<close>.
\<close>

definition where_eq :: "(string \<times> jsval) list \<Rightarrow> obj \<Rightarrow> bool" where
  "where_eq kvs r = list_all (\<lambda>kv. r (fst kv) = Some (snd kv)) kvs"

text \<open>The columns a \<open>first(c1, c2, ...)\<close> returns of a row.\<close>

definition pick :: "string list \<Rightarrow> obj \<Rightarrow> obj" where
  "pick cols r = map_of (map (\<lambda>c. (c, field r c)) cols)"

definition db_update :: "nat option \<Rightarrow> string \<Rightarrow> (obj \<Rightarrow> bool) \<Rightarrow> obj \<Rightarrow> unit promise" where
  "db_update t tbl cond upd w =
     (case run_query t Update tbl w of
        (Some e, w1) \<Rightarrow> (Inl e, w1)
      | (None, w1) \<Rightarrow>
          (Inr (), w1\<lparr>tables := (tables w1)
             (tbl := map (\<lambda>r. if cond r then r ++ upd else r) (tables w1 tbl))\<rparr>))"

definition db_insert :: "nat option \<Rightarrow> string \<Rightarrow> obj \<Rightarrow> unit promise" where
  "db_insert t tbl row w =
     (case run_query t Insert tbl w of
        (Some e, w1) \<Rightarrow> (Inl e, w1)
      | (None, w1) \<Rightarrow> (Inr (), w1\<lparr>tables := (tables w1)(tbl := tables w1 tbl @ [row])\<rparr>))"

definition db_delete :: "nat option \<Rightarrow> string \<Rightarrow> (obj \<Rightarrow> bool) \<Rightarrow> unit promise" where
  "db_delete t tbl cond w =
     (case run_query t Delete tbl w of
        (Some e, w1) \<Rightarrow> (Inl e, w1)
      | (None, w1) \<Rightarrow>
          (Inr (), w1\<lparr>tables := (tables w1)(tbl := filter (\<lambda>r. \<not> cond r) (tables w1 tbl))\<rparr>))"

definition db_select :: "nat option \<Rightarrow> string \<Rightarrow> (obj \<Rightarrow> bool) \<Rightarrow> obj list promise" where
  "db_select t tbl cond w =
     (case run_query t Select tbl w of
        (Some e, w1) \<Rightarrow> (Inl e, w1)
      | (None, w1) \<Rightarrow> (Inr (filter cond (tables w1 tbl)), w1))"

text \<open>\<open>db.first(cols).from(tbl).where(...)\<close>: the first matching row, \<open>undefined\<close> (here \<open>None\<close>) if there is none.\<close>

definition db_first :: "nat option \<Rightarrow> string list \<Rightarrow> string \<Rightarrow> (obj \<Rightarrow> bool) \<Rightarrow> obj option promise" where
  "db_first t cols tbl cond =
     await (db_select t tbl cond)
       (\<lambda>rows. resolve (case rows of [] \<Rightarrow> None | r # rs \<Rightarrow> Some (pick cols r)))"

text \<open>\<open>augurEmitter.emit(name, payload)\<close> is synchronous and is not a promise.\<close>

definition emit :: "jsval \<Rightarrow> obj \<Rightarrow> world \<Rightarrow> world" where
  "emit name payload w = w\<lparr>trace := trace w @ [Emit name payload]\<rparr>"

text \<open>The events published so far, oldest first.\<close>

fun emitted :: "effect list \<Rightarrow> (jsval \<times> obj) list" where
  "emitted [] = []"
| "emitted (Emit n p # es) = (n, p) # emitted es"
| "emitted (Sql t v tbl # es) = emitted es"

text \<open>
  Modelled from the spec: the enum \<open>OrderState\<close> of \<open>../../types\<close> is not among the
  sources. The spec names the states OPEN, FILLED and CANCELED; a member is taken to
  denote the string of its name.
\<close>

definition OrderState :: "string \<Rightarrow> jsval" where
  "OrderState member = Str member"

section \<open>order-canceled.ts\<close>

text \<open>
  \<open>SubscriptionEventNames\<close> (of \<open>../../constants\<close>, not among the sources) is a parameter:
  the table from member names to event names.
\<close>

definition processOrderCanceledLog :: "(string \<Rightarrow> jsval) \<Rightarrow> obj \<Rightarrow> unit promise" where
  "processOrderCanceledLog SubscriptionEventNames log' =
     (let orderTypeLabel = (if field log' ''orderType'' = Str ''0'' then Str ''buy'' else Str ''sell'') in
      await (db_update None ''orders'' (where_eq [(''orderId'', field log' ''orderId'')])
               [''orderState'' \<mapsto> OrderState ''CANCELED'']) (\<lambda>_.
      await (db_insert None ''orders_canceled''
               [''orderId'' \<mapsto> field log' ''orderId'',
                ''transactionHash'' \<mapsto> field log' ''transactionHash'',
                ''logIndex'' \<mapsto> field log' ''logIndex'',
                ''blockNumber'' \<mapsto> field log' ''blockNumber'']) (\<lambda>_.
      await (db_first None [''marketId'', ''outcome'', ''price''] ''orders''
               (where_eq [(''orderId'', field log' ''orderId'')])) (\<lambda>ordersRow w.
      resolve () (emit (SubscriptionEventNames ''OrderCanceled'')
        (case ordersRow of
           None \<Rightarrow> log'
         | Some r \<Rightarrow> log' ++ r(''orderType'' \<mapsto> orderTypeLabel)) w)))))"

definition processOrderCanceledLogRemoval :: "(string \<Rightarrow> jsval) \<Rightarrow> obj \<Rightarrow> unit promise" where
  "processOrderCanceledLogRemoval SubscriptionEventNames log' =
     (let orderTypeLabel = (if field log' ''orderType'' = Str ''0'' then Str ''buy'' else Str ''sell'') in
      await (db_update None ''orders'' (where_eq [(''orderId'', field log' ''orderId'')])
               [''orderState'' \<mapsto> OrderState ''OPEN'']) (\<lambda>_.
      await (db_delete None ''orders_canceled'' (where_eq [(''orderId'', field log' ''orderId'')])) (\<lambda>_.
      await (db_first None [''marketId'', ''outcome'', ''price''] ''orders''
               (where_eq [(''orderId'', field log' ''orderId'')])) (\<lambda>ordersRow w.
      resolve () (emit (SubscriptionEventNames ''OrderCanceled'')
        (case ordersRow of
           None \<Rightarrow> log'
         | Some r \<Rightarrow> log' ++ r(''orderType'' \<mapsto> orderTypeLabel)) w)))))"

section \<open>initial-report-redeemed.ts\<close>

definition processInitialReporterRedeemedLog :: "(string \<Rightarrow> jsval) \<Rightarrow> obj \<Rightarrow> unit promise" where
  "processInitialReporterRedeemedLog SubscriptionEventNames log' =
     await (db_update None ''initial_reports'' (where_eq [(''marketId'', field log' ''market'')])
              [''redeemed'' \<mapsto> Bool True]) (\<lambda>_ w.
     resolve () (emit (SubscriptionEventNames ''InitialReporterRedeemed'') log' w))"

definition processInitialReporterRedeemedLogRemoval :: "(string \<Rightarrow> jsval) \<Rightarrow> obj \<Rightarrow> unit promise" where
  "processInitialReporterRedeemedLogRemoval SubscriptionEventNames log' =
     await (db_update None ''initial_reports'' (where_eq [(''marketId'', field log' ''market'')])
              [''redeemed'' \<mapsto> Bool False]) (\<lambda>_ w.
     resolve () (emit (SubscriptionEventNames ''InitialReporterRedeemed'') log' w))"

section \<open>The complete-sets processors (unnamed/part_000, first file)\<close>

text \<open>
  Modelled from the spec: \<open>updateOpenInterest\<close> of \<open>./order-filled/update-volumetrics\<close> is
  not among the sources. The spec: the open-interest aggregate is a per-market cached
  total computed from the sum of outstanding complete-set fills, recomputed (not
  incrementally patched). The total is kept in the column \<open>openInterest\<close> of the market's
  row.
\<close>

definition updateOpenInterest :: "jsval \<Rightarrow> unit promise" where
  "updateOpenInterest marketId =
     await (db_select None ''completeSets'' (where_eq [(''marketId'', marketId)])) (\<lambda>fills.
     db_update None ''markets'' (where_eq [(''marketId'', marketId)])
       [''openInterest'' \<mapsto> Num (sum_list (map (\<lambda>r. num_of (field r ''numCompleteSets'')) fills))])"

text \<open>
  A call of \<open>updateOpenInterest\<close> whose promise is dropped (no \<open>await\<close>): the caller goes
  on at once, and no query of the call has completed when the caller resolves. In
  JavaScript the queries of the dropped call then run interleaved with whatever runs
  next; the model keeps the whole call in \<open>pending\<close> and runs it at \<open>run_pending\<close>.
\<close>

definition unawaited_updateOpenInterest :: "jsval \<Rightarrow> world \<Rightarrow> world" where
  "unawaited_updateOpenInterest marketId w = w\<lparr>pending := pending w @ [marketId]\<rparr>"

fun settle :: "jsval list \<Rightarrow> world \<Rightarrow> world" where
  "settle [] w = w"
| "settle (m # ms) w = settle ms (snd (updateOpenInterest m w))"

text \<open>The event loop running the calls that were left pending.\<close>

definition run_pending :: "world \<Rightarrow> world" where
  "run_pending w = settle (pending w) (w\<lparr>pending := []\<rparr>)"

text \<open>\<open>SubscriptionEventNames[eventName]\<close>.\<close>

definition lookup_name :: "(string \<Rightarrow> jsval) \<Rightarrow> jsval \<Rightarrow> jsval" where
  "lookup_name SubscriptionEventNames eventName =
     (case eventName of Str s \<Rightarrow> SubscriptionEventNames s | _ \<Rightarrow> Undefined)"

text \<open>
  \<open>numTicksToTickSize\<close> (of \<open>../../utils/convert-fixed-point-to-decimal\<close>, not among the
  sources) and \<open>augur.utils.convertOnChainAmountToDisplayAmount\<close> (of augur.js) are
  parameters. The second stands for the whole expression
  \<open>convertOnChainAmountToDisplayAmount(new BigNumber(log.numCompleteSets, 10), tickSize).toString()\<close>.
\<close>

definition processCompleteSetsPurchasedOrSoldLog ::
  "(string \<Rightarrow> jsval) \<Rightarrow> (jsval \<Rightarrow> jsval \<Rightarrow> jsval \<Rightarrow> jsval) \<Rightarrow> (jsval \<Rightarrow> jsval \<Rightarrow> jsval)
     \<Rightarrow> obj \<Rightarrow> unit promise" where
  "processCompleteSetsPurchasedOrSoldLog SubscriptionEventNames numTicksToTickSize
       convertOnChainAmountToDisplayAmount log' =
     (let marketId = field log' ''market'' in
      await (db_first None [''minPrice'', ''maxPrice'', ''numTicks''] ''markets''
               (where_eq [(''marketId'', marketId)])) (\<lambda>marketsRow.
      case marketsRow of
        None \<Rightarrow> throw (Error ''market min price, max price, category, and/or num ticks not found'')
      | Some marketsRow \<Rightarrow>
          (let minPrice = field marketsRow ''minPrice'';
               maxPrice = field marketsRow ''maxPrice'';
               numTicks = field marketsRow ''numTicks'';
               tickSize = numTicksToTickSize numTicks minPrice maxPrice;
               numCompleteSets = convertOnChainAmountToDisplayAmount (field log' ''numCompleteSets'') tickSize;
               completeSetPurchasedData =
                 [''marketId'' \<mapsto> marketId,
                  ''account'' \<mapsto> field log' ''account'',
                  ''blockNumber'' \<mapsto> field log' ''blockNumber'',
                  ''universe'' \<mapsto> field log' ''universe'',
                  ''eventName'' \<mapsto> field log' ''eventName'',
                  ''transactionHash'' \<mapsto> field log' ''transactionHash'',
                  ''logIndex'' \<mapsto> field log' ''logIndex'',
                  ''tradeGroupId'' \<mapsto> field log' ''tradeGroupId'',
                  ''numCompleteSets'' \<mapsto> numCompleteSets,
                  ''numPurchasedOrSold'' \<mapsto> numCompleteSets];
               eventName = field log' ''eventName''
           in await (db_insert None ''completeSets'' completeSetPurchasedData) (\<lambda>_ w.
              resolve ()
                (unawaited_updateOpenInterest marketId
                  (emit (lookup_name SubscriptionEventNames eventName) completeSetPurchasedData w))))))"

definition processCompleteSetsPurchasedOrSoldLogRemoval :: "(string \<Rightarrow> jsval) \<Rightarrow> obj \<Rightarrow> unit promise" where
  "processCompleteSetsPurchasedOrSoldLogRemoval SubscriptionEventNames log' =
     await (db_delete None ''completeSets''
              (where_eq [(''transactionHash'', field log' ''transactionHash''),
                         (''logIndex'', field log' ''logIndex'')])) (\<lambda>_ w.
     (let eventName = field log' ''eventName'' in
      await (updateOpenInterest (field log' ''market'')) resolve
        (emit (lookup_name SubscriptionEventNames eventName) log' w)))"

section \<open>The dispute-crowdsourcer processors (unnamed/part_000, second file)\<close>

text \<open>
  These processors are written with callbacks: a query is run with \<open>.asCallback\<close>, which
  hands the continuation the error (or \<open>null\<close>) and the result, and each processor ends by
  calling its own \<open>callback\<close> with an error or with \<open>null\<close>.
\<close>

definition asCallback :: "'a promise \<Rightarrow> (error option \<Rightarrow> 'a option \<Rightarrow> world \<Rightarrow> 'r) \<Rightarrow> world \<Rightarrow> 'r" where
  "asCallback p k w =
     (case p w of (Inl e, w1) \<Rightarrow> k (Some e) None w1 | (Inr x, w1) \<Rightarrow> k None (Some x) w1)"

text \<open>The payout id a new payout row gets: one more than every numeric id in the table.\<close>

definition next_payoutID :: "obj list \<Rightarrow> jsval" where
  "next_payoutID rows = Num (1 + foldr max (map (\<lambda>r. num_of (field r ''payoutID'')) rows) 0)"

text \<open>
  Modelled from the spec: \<open>insertPayout\<close> of \<open>./database\<close> is not among the sources. The
  spec: payout resolution is find-or-create of a shared payout row keyed by
  \<open>(market, payoutNumerators, invalid)\<close>, inside the transaction it is given. It hands its
  continuation the error (or \<open>null\<close>) and the payout id.
\<close>

definition insertPayout ::
  "nat \<Rightarrow> jsval \<Rightarrow> jsval \<Rightarrow> jsval \<Rightarrow> (error option \<Rightarrow> jsval \<Rightarrow> world \<Rightarrow> 'r) \<Rightarrow> world \<Rightarrow> 'r" where
  "insertPayout trx marketID payoutNumerators invalid callback =
     asCallback (db_first (Some trx) [''payoutID''] ''payouts''
                   (where_eq [(''marketID'', marketID), (''payoutNumerators'', payoutNumerators),
                              (''isInvalid'', invalid)])) (\<lambda>err found w.
       case err of
         Some e \<Rightarrow> callback (Some e) Undefined w
       | None \<Rightarrow>
           (case found of
              Some (Some payoutRow) \<Rightarrow> callback None (field payoutRow ''payoutID'') w
            | _ \<Rightarrow>
                (let payoutID = next_payoutID (tables w ''payouts'') in
                 asCallback (db_insert (Some trx) ''payouts''
                               [''payoutID'' \<mapsto> payoutID, ''marketID'' \<mapsto> marketID,
                                ''payoutNumerators'' \<mapsto> payoutNumerators, ''isInvalid'' \<mapsto> invalid])
                   (\<lambda>err _. case err of Some e \<Rightarrow> callback (Some e) Undefined
                                       | None \<Rightarrow> callback None payoutID) w)))"

definition processDisputeCrowdsourcerCreatedLog ::
  "nat \<Rightarrow> obj \<Rightarrow> (error option \<Rightarrow> world \<Rightarrow> 'r) \<Rightarrow> world \<Rightarrow> 'r" where
  "processDisputeCrowdsourcerCreatedLog trx log' callback =
     insertPayout trx (field log' ''market'') (field log' ''payoutNumerators'') (field log' ''invalid'')
       (\<lambda>err payoutID.
          (let crowdsourcerToInsert =
                 [''blockNumber'' \<mapsto> field log' ''blockNumber'',
                  ''transactionHash'' \<mapsto> field log' ''transactionHash'',
                  ''logIndex'' \<mapsto> field log' ''logIndex'',
                  ''crowdsourcerID'' \<mapsto> field log' ''disputeCrowdsourcer'',
                  ''marketID'' \<mapsto> field log' ''market'',
                  ''size'' \<mapsto> field log' ''size'',
                  ''payoutID'' \<mapsto> payoutID]
           in asCallback (db_insert (Some trx) ''crowdsourcers'' crowdsourcerToInsert) (\<lambda>err _ w.
                case err of
                  Some e \<Rightarrow> callback (Some e) w
                | None \<Rightarrow> callback None (emit (Str ''DisputeCrowdsourcerCreated'') log' w))))"

definition processDisputeCrowdsourcerCreatedLogRemoval ::
  "nat \<Rightarrow> obj \<Rightarrow> (error option \<Rightarrow> world \<Rightarrow> 'r) \<Rightarrow> world \<Rightarrow> 'r" where
  "processDisputeCrowdsourcerCreatedLogRemoval trx log' callback =
     asCallback (db_delete (Some trx) ''crowdsourcers''
                   (where_eq [(''crowdsourcerID'', field log' ''disputeCrowdsourcer'')])) (\<lambda>err _ w.
       case err of
         Some e \<Rightarrow> callback (Some e) w
       | None \<Rightarrow> callback None (emit (Str ''DisputeCrowdsourcerCreated'') log' w))"

definition processDisputeCrowdsourcerContributionLog ::
  "nat \<Rightarrow> obj \<Rightarrow> (error option \<Rightarrow> world \<Rightarrow> 'r) \<Rightarrow> world \<Rightarrow> 'r" where
  "processDisputeCrowdsourcerContributionLog trx log' callback =
     (let disputeToInsert =
            [''blockNumber'' \<mapsto> field log' ''blockNumber'',
             ''transactionHash'' \<mapsto> field log' ''transactionHash'',
             ''logIndex'' \<mapsto> field log' ''logIndex'',
             ''reporter'' \<mapsto> field log' ''reporter'',
             ''crowdsourcerID'' \<mapsto> field log' ''disputeCrowdsourcer'',
             ''amountStaked'' \<mapsto> field log' ''amountStaked'']
      in asCallback (db_insert (Some trx) ''disputes'' disputeToInsert) (\<lambda>err _ w.
           case err of
             Some e \<Rightarrow> callback (Some e) w
           | None \<Rightarrow> callback None (emit (Str ''DisputeCrowdsourcerContribution'') log' w)))"

definition processDisputeCrowdsourcerContributionLogRemoval ::
  "nat \<Rightarrow> obj \<Rightarrow> (error option \<Rightarrow> world \<Rightarrow> 'r) \<Rightarrow> world \<Rightarrow> 'r" where
  "processDisputeCrowdsourcerContributionLogRemoval trx log' callback =
     asCallback (db_delete (Some trx) ''disputes''
                   (where_eq [(''transactionHash'', field log' ''transactionHash''),
                              (''logIndex'', field log' ''logIndex'')])) (\<lambda>err _ w.
       case err of
         Some e \<Rightarrow> callback (Some e) w
       | None \<Rightarrow> callback None (emit (Str ''DisputeCrowdsourcerContribution'') log' w))"

definition processDisputeCrowdsourcerCompletedLog ::
  "nat \<Rightarrow> obj \<Rightarrow> (error option \<Rightarrow> world \<Rightarrow> 'r) \<Rightarrow> world \<Rightarrow> 'r" where
  "processDisputeCrowdsourcerCompletedLog trx log' callback =
     asCallback (db_update (Some trx) ''crowdsourcers''
                   (where_eq [(''crowdsourcerID'', field log' ''disputeCrowdsourcer'')])
                   [''completed'' \<mapsto> Num 1]) (\<lambda>err _ w.
       case err of
         Some e \<Rightarrow> callback (Some e) w
       | None \<Rightarrow> callback None (emit (Str ''DisputeCrowdsourcerCompleted'') log' w))"

definition processDisputeCrowdsourcerCompletedLogRemoval ::
  "nat \<Rightarrow> obj \<Rightarrow> (error option \<Rightarrow> world \<Rightarrow> 'r) \<Rightarrow> world \<Rightarrow> 'r" where
  "processDisputeCrowdsourcerCompletedLogRemoval trx log' callback =
     asCallback (db_update (Some trx) ''crowdsourcers''
                   (where_eq [(''crowdsourcerID'', field log' ''disputeCrowdsourcer'')])
                   [''completed'' \<mapsto> Num 0]) (\<lambda>err _ w.
       case err of
         Some e \<Rightarrow> callback (Some e) w
       | None \<Rightarrow> callback None (emit (Str ''DisputeCrowdsourcerCompleted'') log' w))"

section \<open>monitor-ethereum-node-health.ts\<close>

text \<open>
  The state the periodic check acts on: whether the interval timer
  \<open>monitorEthereumNodeHealthId\<close> is still set, and the errors \<open>errorCallback\<close> has been
  called with, oldest first.
\<close>

record monitor =
  interval_set :: bool
  errorCallback_calls :: "error list"

definition clearInterval :: "monitor \<Rightarrow> monitor" where
  "clearInterval m = m\<lparr>interval_set := False\<rparr>"

text \<open>\<open>if (errorCallback) errorCallback(e)\<close>; \<open>supplied\<close> says whether \<open>errorCallback\<close> is defined.\<close>

definition call_errorCallback :: "bool \<Rightarrow> error \<Rightarrow> monitor \<Rightarrow> monitor" where
  "call_errorCallback supplied e m =
     (if supplied then m\<lparr>errorCallback_calls := errorCallback_calls m @ [e]\<rparr> else m)"

text \<open>A string or \<open>undefined\<close> inside a template literal.\<close>

definition template :: "string option \<Rightarrow> string" where
  "template v = (case v of None \<Rightarrow> ''undefined'' | Some s \<Rightarrow> s)"

text \<open>
  The callback given to \<open>augur.api.Universe.getController\<close> on every tick of the interval,
  applied to the answer \<open>(err, universeController)\<close> of the RPC.
\<close>

definition getController_callback ::
  "string \<Rightarrow> bool \<Rightarrow> error option \<Rightarrow> string option \<Rightarrow> monitor \<Rightarrow> monitor" where
  "getController_callback controller errorCallback err universeController m =
     (let m1 = (case err of
                  Some e \<Rightarrow> call_errorCallback errorCallback e (clearInterval m)
                | None \<Rightarrow> m)
      in if universeController \<noteq> Some controller
         then call_errorCallback errorCallback
                (Error (''Controller mismatch. Configured: '' @ controller @ '' Found: '' @
                        template universeController))
                (clearInterval m1)
         else m1)"

section \<open>Reading a run\<close>

text \<open>The events published between an earlier world and a later one.\<close>

definition published :: "world \<Rightarrow> world \<Rightarrow> (jsval \<times> obj) list" where
  "published w w' = drop (length (emitted (trace w))) (emitted (trace w'))"

text \<open>The effects a run from \<open>w\<close> to \<open>w'\<close> added to the trace.\<close>

definition effects :: "world \<Rightarrow> world \<Rightarrow> effect list" where
  "effects w w' = drop (length (trace w)) (trace w')"

text \<open>
  An effect without its payload: the transaction handle, verb and table of a query,
  \<open>None\<close> for an emitted event.
\<close>

fun query_of :: "effect \<Rightarrow> (nat option \<times> verb \<times> string) option" where
  "query_of (Sql t v tbl) = Some (t, v, tbl)"
| "query_of (Emit n p) = None"

text \<open>The shape of each published payload: the set of its fields.\<close>

definition shapes :: "(jsval \<times> obj) list \<Rightarrow> string set list" where
  "shapes evs = map (\<lambda>np. dom (snd np)) evs"




section \<open>Concrete stores and logs\<close>

definition names0 :: "string \<Rightarrow> jsval" where
  "names0 member = Str member"

definition empty_world :: world where
  "empty_world = \<lparr>tables = (\<lambda>tbl. []), faults = [], trace = [], pending = []\<rparr>"

definition cancel_log :: obj where
  "cancel_log = [''orderId'' \<mapsto> Str ''0xABC'', ''orderType'' \<mapsto> Str ''0'',
                 ''transactionHash'' \<mapsto> Str ''0xT1'', ''logIndex'' \<mapsto> Num 0,
                 ''blockNumber'' \<mapsto> Num 100]"

definition order_row :: "jsval \<Rightarrow> obj" where
  "order_row st = [''orderId'' \<mapsto> Str ''0xABC'', ''marketId'' \<mapsto> Str ''0xM'',
                   ''outcome'' \<mapsto> Num 1, ''price'' \<mapsto> Num (1 / 2), ''orderState'' \<mapsto> st]"

definition store_with_order :: "jsval \<Rightarrow> world" where
  "store_with_order st = empty_world\<lparr>tables := (\<lambda>tbl. [])(''orders'' := [order_row st])\<rparr>"

definition sample_log :: obj where
  "sample_log = [''orderId'' \<mapsto> Str ''0xABC'', ''orderType'' \<mapsto> Str ''0'',
                 ''transactionHash'' \<mapsto> Str ''0xT1'', ''logIndex'' \<mapsto> Num 0,
                 ''blockNumber'' \<mapsto> Num 100, ''market'' \<mapsto> Str ''0xM'',
                 ''disputeCrowdsourcer'' \<mapsto> Str ''0xC'', ''reporter'' \<mapsto> Str ''0xR'',
                 ''amountStaked'' \<mapsto> Num 3]"

definition sample_store :: world where
  "sample_store = empty_world\<lparr>tables := (\<lambda>tbl. [])
     (''orders'' := [order_row (OrderState ''OPEN'')],
      ''initial_reports'' := [[''marketId'' \<mapsto> Str ''0xM'', ''redeemed'' \<mapsto> Bool False]],
      ''crowdsourcers'' := [[''crowdsourcerID'' \<mapsto> Str ''0xC'', ''completed'' \<mapsto> Num 0]])\<rparr>"

text \<open>A database that rejects the next query.\<close>

definition failing_store :: world where
  "failing_store = (store_with_order (OrderState ''FILLED''))\<lparr>faults := [Some (Error ''SQLITE_BUSY'')]\<rparr>"

text \<open>
  A market, a complete-sets log for it (10 display units at tick size 0.01), and stand-ins
  for the two numeric conversions: the tick size is \<open>(maxPrice - minPrice) / numTicks\<close>, and
  the display amount is the on-chain amount divided by the tick size and by \<open>10^18\<close>. The
  source stores the display amount as a decimal string; the stand-in gives the number.
\<close>

definition market_row :: obj where
  "market_row = [''marketId'' \<mapsto> Str ''0xM'', ''minPrice'' \<mapsto> Num 0, ''maxPrice'' \<mapsto> Num 1,
                 ''numTicks'' \<mapsto> Num 100, ''openInterest'' \<mapsto> Num 0]"

definition market_store :: world where
  "market_store = empty_world\<lparr>tables := (\<lambda>tbl. [])(''markets'' := [market_row])\<rparr>"

definition sets_log :: obj where
  "sets_log = [''market'' \<mapsto> Str ''0xM'', ''account'' \<mapsto> Str ''0xA'', ''blockNumber'' \<mapsto> Num 100,
               ''universe'' \<mapsto> Str ''0xU'', ''eventName'' \<mapsto> Str ''CompleteSetsPurchased'',
               ''transactionHash'' \<mapsto> Str ''0xT1'', ''logIndex'' \<mapsto> Num 0,
               ''tradeGroupId'' \<mapsto> Str ''0xG'',
               ''numCompleteSets'' \<mapsto> Num 100000000000000000]"

definition tick0 :: "jsval \<Rightarrow> jsval \<Rightarrow> jsval \<Rightarrow> jsval" where
  "tick0 numTicks minPrice maxPrice = Num ((num_of maxPrice - num_of minPrice) / num_of numTicks)"

definition display0 :: "jsval \<Rightarrow> jsval \<Rightarrow> jsval" where
  "display0 onChainAmount tickSize =
     Num (num_of onChainAmount / num_of tickSize / 1000000000000000000)"

text \<open>Two dispute-crowdsourcer creation logs that stake on the same payout set.\<close>

definition creation_log :: obj where
  "creation_log = [''market'' \<mapsto> Str ''0xM'', ''payoutNumerators'' \<mapsto> Arr [Num 0, Num 10000],
                   ''invalid'' \<mapsto> Bool False, ''disputeCrowdsourcer'' \<mapsto> Str ''0xC1'',
                   ''size'' \<mapsto> Num 5, ''blockNumber'' \<mapsto> Num 100,
                   ''transactionHash'' \<mapsto> Str ''0xT1'', ''logIndex'' \<mapsto> Num 0]"

definition creation_log2 :: obj where
  "creation_log2 = [''market'' \<mapsto> Str ''0xM'', ''payoutNumerators'' \<mapsto> Arr [Num 0, Num 10000],
                    ''invalid'' \<mapsto> Bool False, ''disputeCrowdsourcer'' \<mapsto> Str ''0xC2'',
                    ''size'' \<mapsto> Num 7, ''blockNumber'' \<mapsto> Num 101,
                    ''transactionHash'' \<mapsto> Str ''0xT2'', ''logIndex'' \<mapsto> Num 3]"


section \<open>Properties\<close>

lemma run_query_ok [simp]:
  "faults w = [] \<Longrightarrow> run_query t v tbl w = (None, w\<lparr>trace := trace w @ [Sql t v tbl]\<rparr>)"
  by (simp add: run_query_def)

lemma db_update_ok:
  "faults w = [] \<Longrightarrow> db_update t tbl c u w =
     (Inr (), w\<lparr>tables := (tables w)(tbl := map (\<lambda>r. if c r then r ++ u else r) (tables w tbl)),
               trace := trace w @ [Sql t Update tbl]\<rparr>)"
  by (simp add: db_update_def)

lemma db_insert_ok:
  "faults w = [] \<Longrightarrow> db_insert t tbl row w =
     (Inr (), w\<lparr>tables := (tables w)(tbl := tables w tbl @ [row]),
               trace := trace w @ [Sql t Insert tbl]\<rparr>)"
  by (simp add: db_insert_def)

lemma db_delete_ok:
  "faults w = [] \<Longrightarrow> db_delete t tbl c w =
     (Inr (), w\<lparr>tables := (tables w)(tbl := filter (\<lambda>r. \<not> c r) (tables w tbl)),
               trace := trace w @ [Sql t Delete tbl]\<rparr>)"
  by (simp add: db_delete_def)

lemma db_select_ok:
  "faults w = [] \<Longrightarrow> db_select t tbl c w =
     (Inr (filter c (tables w tbl)), w\<lparr>trace := trace w @ [Sql t Select tbl]\<rparr>)"
  by (simp add: db_select_def)

lemma db_first_ok:
  "faults w = [] \<Longrightarrow> db_first t cols tbl c w =
     (Inr (case filter c (tables w tbl) of [] \<Rightarrow> None | r # rs \<Rightarrow> Some (pick cols r)),
      w\<lparr>trace := trace w @ [Sql t Select tbl]\<rparr>)"
  by (simp add: db_first_def await_def db_select_ok resolve_def)

lemmas db_ok = db_update_ok db_insert_ok db_delete_ok db_select_ok db_first_ok


lemma emitted_append: "emitted (xs @ ys) = emitted xs @ emitted ys"
  by (induction xs rule: emitted.induct) simp_all

lemma filter_updated:
  assumes "\<And>r. c (f r) = c r"
  shows "filter c (map (\<lambda>r. if c r then f r else r) xs) = map f (filter c xs)"
  using assms by (induction xs) simp_all

lemma where_eq_other_column:
  "k \<notin> fst ` set kvs \<Longrightarrow> where_eq kvs (r(k \<mapsto> v)) = where_eq kvs r"
  by (induction kvs) (auto simp: where_eq_def)

lemma filter_where_updated:
  "k \<notin> fst ` set kvs \<Longrightarrow>
   filter (where_eq kvs) (map (\<lambda>r. if where_eq kvs r then r ++ [k \<mapsto> v] else r) xs) =
   map (\<lambda>r. r(k \<mapsto> v)) (filter (where_eq kvs) xs)"
  using filter_updated [of "where_eq kvs" "\<lambda>r. r ++ [k \<mapsto> v]" xs]
  by (simp add: where_eq_other_column)

lemma pick_other_column:
  "k \<notin> set cols \<Longrightarrow> pick cols (r(k \<mapsto> v)) = pick cols r"
  by (induction cols) (auto simp: pick_def field_def)

lemma cancel_ok:
  "faults w = [] \<Longrightarrow> fst (processOrderCanceledLog names log' w) = Inr ()"
  by (simp add: processOrderCanceledLog_def await_def db_ok resolve_def emit_def Let_def)

lemma cancel_tables:
  "faults w = [] \<Longrightarrow> tables (snd (processOrderCanceledLog names log' w)) =
     (tables w)
        (''orders'' := map (\<lambda>r. if where_eq [(''orderId'', field log' ''orderId'')] r
                                  then r ++ [''orderState'' \<mapsto> OrderState ''CANCELED''] else r) (tables w ''orders''),
         ''orders_canceled'' := tables w ''orders_canceled'' @
               [[''orderId'' \<mapsto> field log' ''orderId'',
                ''transactionHash'' \<mapsto> field log' ''transactionHash'',
                ''logIndex'' \<mapsto> field log' ''logIndex'',
                ''blockNumber'' \<mapsto> field log' ''blockNumber'']])"
  by (simp add: processOrderCanceledLog_def await_def db_ok resolve_def emit_def Let_def)

lemma cancel_faults:
  "faults w = [] \<Longrightarrow> faults (snd (processOrderCanceledLog names log' w)) = []"
  by (simp add: processOrderCanceledLog_def await_def db_ok resolve_def emit_def Let_def)

lemma cancel_trace:
  "faults w = [] \<Longrightarrow> trace (snd (processOrderCanceledLog names log' w)) =
     trace w @ [Sql None Update ''orders'', Sql None Insert ''orders_canceled'', Sql None Select ''orders'',
          Emit (names ''OrderCanceled'')
           (case filter (where_eq [(''orderId'', field log' ''orderId'')]) (tables w ''orders'') of
              [] \<Rightarrow> log'
            | r # rs \<Rightarrow> log' ++ (pick [''marketId'', ''outcome'', ''price''] r)
                 (''orderType'' \<mapsto> (if field log' ''orderType'' = Str ''0'' then Str ''buy'' else Str ''sell'')))]"
  by (cases "filter (where_eq [(''orderId'', field log' ''orderId'')]) (tables w ''orders'')")
     (simp_all add: processOrderCanceledLog_def await_def db_ok resolve_def emit_def Let_def
      filter_where_updated pick_other_column)


lemma uncancel_ok:
  "faults w = [] \<Longrightarrow> fst (processOrderCanceledLogRemoval names log' w) = Inr ()"
  by (simp add: processOrderCanceledLogRemoval_def await_def db_ok resolve_def emit_def Let_def)

lemma uncancel_tables:
  "faults w = [] \<Longrightarrow> tables (snd (processOrderCanceledLogRemoval names log' w)) =
     (tables w)
        (''orders'' := map (\<lambda>r. if where_eq [(''orderId'', field log' ''orderId'')] r
                                  then r ++ [''orderState'' \<mapsto> OrderState ''OPEN''] else r) (tables w ''orders''),
         ''orders_canceled'' := filter (\<lambda>r. \<not> where_eq [(''orderId'', field log' ''orderId'')] r)
                                  (tables w ''orders_canceled''))"
  by (simp add: processOrderCanceledLogRemoval_def await_def db_ok resolve_def emit_def Let_def)

lemma uncancel_faults:
  "faults w = [] \<Longrightarrow> faults (snd (processOrderCanceledLogRemoval names log' w)) = []"
  by (simp add: processOrderCanceledLogRemoval_def await_def db_ok resolve_def emit_def Let_def)

lemma uncancel_trace:
  "faults w = [] \<Longrightarrow> trace (snd (processOrderCanceledLogRemoval names log' w)) =
     trace w @ [Sql None Update ''orders'', Sql None Delete ''orders_canceled'', Sql None Select ''orders'',
          Emit (names ''OrderCanceled'')
           (case filter (where_eq [(''orderId'', field log' ''orderId'')]) (tables w ''orders'') of
              [] \<Rightarrow> log'
            | r # rs \<Rightarrow> log' ++ (pick [''marketId'', ''outcome'', ''price''] r)
                 (''orderType'' \<mapsto> (if field log' ''orderType'' = Str ''0'' then Str ''buy'' else Str ''sell'')))]"
  by (cases "filter (where_eq [(''orderId'', field log' ''orderId'')]) (tables w ''orders'')")
     (simp_all add: processOrderCanceledLogRemoval_def await_def db_ok resolve_def emit_def Let_def
      filter_where_updated pick_other_column)

lemma published_append:
  "trace w' = trace w @ es \<Longrightarrow> published w w' = emitted es"
  by (simp add: published_def emitted_append)

subsection \<open>C5: the cancellation scenario\<close>

text \<open>
  C5. With every query succeeding and an order \<open>0xABC\<close> in the \<open>orders\<close> table, applying a
  cancellation log with \<open>orderId = "0xABC"\<close> and \<open>orderType = "0"\<close> resolves, leaves
  every order \<open>0xABC\<close> in state CANCELED, leaves a cancellation record keyed by \<open>0xABC\<close>
  in \<open>orders_canceled\<close>, and publishes exactly one event, \<open>OrderCanceled\<close>, whose
  \<open>orderType\<close> field is \<open>"buy"\<close>. Reverting the same log on the resulting store resolves,
  leaves every order \<open>0xABC\<close> in state OPEN and leaves no cancellation record keyed by
  \<open>0xABC\<close>.
\<close>

theorem cancellation_scenario:
  fixes names :: "string \<Rightarrow> jsval" and log' :: obj and w :: world
  assumes ok: "faults w = []"
    and oid: "field log' ''orderId'' = Str ''0xABC''"
    and oty: "field log' ''orderType'' = Str ''0''"
    and ex: "filter (where_eq [(''orderId'', Str ''0xABC'')]) (tables w ''orders'') \<noteq> []"
  defines "w1 \<equiv> snd (processOrderCanceledLog names log' w)"
  defines "w2 \<equiv> snd (processOrderCanceledLogRemoval names log' w1)"
  shows "fst (processOrderCanceledLog names log' w) = Inr ()
       \<and> filter (where_eq [(''orderId'', Str ''0xABC'')]) (tables w1 ''orders'') \<noteq> []
       \<and> list_all (\<lambda>r. r ''orderState'' = Some (OrderState ''CANCELED''))
            (filter (where_eq [(''orderId'', Str ''0xABC'')]) (tables w1 ''orders''))
       \<and> filter (where_eq [(''orderId'', Str ''0xABC'')]) (tables w1 ''orders_canceled'') \<noteq> []
       \<and> map (\<lambda>np. (fst np, snd np ''orderType'')) (published w w1)
            = [(names ''OrderCanceled'', Some (Str ''buy''))]
       \<and> fst (processOrderCanceledLogRemoval names log' w1) = Inr ()
       \<and> filter (where_eq [(''orderId'', Str ''0xABC'')]) (tables w2 ''orders'') \<noteq> []
       \<and> list_all (\<lambda>r. r ''orderState'' = Some (OrderState ''OPEN''))
            (filter (where_eq [(''orderId'', Str ''0xABC'')]) (tables w2 ''orders''))
       \<and> filter (where_eq [(''orderId'', Str ''0xABC'')]) (tables w2 ''orders_canceled'') = []"
proof -
  have ok1: "faults w1 = []"
    unfolding w1_def using ok by (rule cancel_faults)
  have t1: "filter (where_eq [(''orderId'', Str ''0xABC'')]) (tables w1 ''orders'') =
      map (\<lambda>r. r(''orderState'' \<mapsto> OrderState ''CANCELED''))
        (filter (where_eq [(''orderId'', Str ''0xABC'')]) (tables w ''orders''))"
    unfolding w1_def by (simp add: cancel_tables ok oid filter_where_updated)
  have c1: "filter (where_eq [(''orderId'', Str ''0xABC'')]) (tables w1 ''orders_canceled'') \<noteq> []"
    unfolding w1_def by (simp add: cancel_tables ok oid where_eq_def)
  have p1: "map (\<lambda>np. (fst np, snd np ''orderType'')) (published w w1)
            = [(names ''OrderCanceled'', Some (Str ''buy''))]"
    using ex unfolding w1_def
    by (cases "filter (where_eq [(''orderId'', Str ''0xABC'')]) (tables w ''orders'')")
       (simp_all add: published_append [OF cancel_trace [OF ok]] oid oty)
  have t2: "filter (where_eq [(''orderId'', Str ''0xABC'')]) (tables w2 ''orders'') =
      map (\<lambda>r. r(''orderState'' \<mapsto> OrderState ''OPEN''))
        (filter (where_eq [(''orderId'', Str ''0xABC'')]) (tables w1 ''orders''))"
    unfolding w2_def by (simp add: uncancel_tables ok1 oid filter_where_updated)
  have c2: "filter (where_eq [(''orderId'', Str ''0xABC'')]) (tables w2 ''orders_canceled'') = []"
    unfolding w2_def by (simp add: uncancel_tables ok1 oid)
  show ?thesis
    using ex c1 p1 c2 cancel_ok [OF ok] uncancel_ok [OF ok1]
    by (simp add: t1 t2 list_all_iff)
qed

theorem cancellation_scenario_witness:
  "faults (store_with_order (OrderState ''OPEN'')) = []
   \<and> field cancel_log ''orderId'' = Str ''0xABC''
   \<and> field cancel_log ''orderType'' = Str ''0''
   \<and> filter (where_eq [(''orderId'', Str ''0xABC'')]) (tables (store_with_order (OrderState ''OPEN'')) ''orders'') \<noteq> []
   \<and> map (\<lambda>r. r ''orderState'')
        (tables (snd (processOrderCanceledLog names0 cancel_log (store_with_order (OrderState ''OPEN'')))) ''orders'')
       = [Some (Str ''CANCELED'')]
   \<and> map (\<lambda>np. (fst np, snd np ''orderType''))
        (published (store_with_order (OrderState ''OPEN''))
           (snd (processOrderCanceledLog names0 cancel_log (store_with_order (OrderState ''OPEN'')))))
       = [(Str ''OrderCanceled'', Some (Str ''buy''))]"
proof -
  have h1: "faults (store_with_order (OrderState ''OPEN'')) = []"
    by (simp add: store_with_order_def empty_world_def)
  have h2: "field cancel_log ''orderId'' = Str ''0xABC''"
    by (simp add: cancel_log_def field_def)
  have h3: "field cancel_log ''orderType'' = Str ''0''"
    by (simp add: cancel_log_def field_def)
  have h4: "filter (where_eq [(''orderId'', Str ''0xABC'')])
              (tables (store_with_order (OrderState ''OPEN'')) ''orders'') \<noteq> []"
    by (simp add: store_with_order_def empty_world_def order_row_def where_eq_def)
  have t: "map (\<lambda>r. r ''orderState'')
        (tables (snd (processOrderCanceledLog names0 cancel_log (store_with_order (OrderState ''OPEN'')))) ''orders'')
      = [Some (Str ''CANCELED'')]"
    by (simp add: cancel_tables h1 h2)
       (simp add: store_with_order_def empty_world_def order_row_def where_eq_def OrderState_def)
  show ?thesis
    using cancellation_scenario [OF h1 h2 h3 h4, of names0] h1 h2 h3 h4
    by (simp add: t names0_def)
qed

lemma redeem_run:
  "faults w = [] \<Longrightarrow> processInitialReporterRedeemedLog names log' w =
     (Inr (), w\<lparr>tables := (tables w)(''initial_reports'' :=
                   map (\<lambda>r. if where_eq [(''marketId'', field log' ''market'')] r
                             then r ++ [''redeemed'' \<mapsto> Bool True] else r) (tables w ''initial_reports'')),
               trace := trace w @ [Sql None Update ''initial_reports'',
                                   Emit (names ''InitialReporterRedeemed'') log']\<rparr>)"
  by (simp add: processInitialReporterRedeemedLog_def await_def db_ok resolve_def emit_def)

lemma unredeem_run:
  "faults w = [] \<Longrightarrow> processInitialReporterRedeemedLogRemoval names log' w =
     (Inr (), w\<lparr>tables := (tables w)(''initial_reports'' :=
                   map (\<lambda>r. if where_eq [(''marketId'', field log' ''market'')] r
                             then r ++ [''redeemed'' \<mapsto> Bool False] else r) (tables w ''initial_reports'')),
               trace := trace w @ [Sql None Update ''initial_reports'',
                                   Emit (names ''InitialReporterRedeemed'') log']\<rparr>)"
  by (simp add: processInitialReporterRedeemedLogRemoval_def await_def db_ok resolve_def emit_def)

lemma contribution_run:
  "faults w = [] \<Longrightarrow> processDisputeCrowdsourcerContributionLog trx log' callback w =
     callback None (w\<lparr>tables := (tables w)(''disputes'' := tables w ''disputes'' @
                    [[''blockNumber'' \<mapsto> field log' ''blockNumber'',
                      ''transactionHash'' \<mapsto> field log' ''transactionHash'',
                      ''logIndex'' \<mapsto> field log' ''logIndex'',
                      ''reporter'' \<mapsto> field log' ''reporter'',
                      ''crowdsourcerID'' \<mapsto> field log' ''disputeCrowdsourcer'',
                      ''amountStaked'' \<mapsto> field log' ''amountStaked'']]),
               trace := trace w @ [Sql (Some trx) Insert ''disputes'',
                                   Emit (Str ''DisputeCrowdsourcerContribution'') log']\<rparr>)"
  by (simp add: processDisputeCrowdsourcerContributionLog_def asCallback_def db_ok emit_def)

lemma uncontribution_run:
  "faults w = [] \<Longrightarrow> processDisputeCrowdsourcerContributionLogRemoval trx log' callback w =
     callback None (w\<lparr>tables := (tables w)(''disputes'' :=
                    filter (\<lambda>r. \<not> where_eq [(''transactionHash'', field log' ''transactionHash''),
                                               (''logIndex'', field log' ''logIndex'')] r) (tables w ''disputes'')),
               trace := trace w @ [Sql (Some trx) Delete ''disputes'',
                                   Emit (Str ''DisputeCrowdsourcerContribution'') log']\<rparr>)"
  by (simp add: processDisputeCrowdsourcerContributionLogRemoval_def asCallback_def db_ok emit_def)

lemma completed_run:
  "faults w = [] \<Longrightarrow> processDisputeCrowdsourcerCompletedLog trx log' callback w =
     callback None (w\<lparr>tables := (tables w)(''crowdsourcers'' :=
                   map (\<lambda>r. if where_eq [(''crowdsourcerID'', field log' ''disputeCrowdsourcer'')] r
                             then r ++ [''completed'' \<mapsto> Num 1] else r) (tables w ''crowdsourcers'')),
               trace := trace w @ [Sql (Some trx) Update ''crowdsourcers'',
                                   Emit (Str ''DisputeCrowdsourcerCompleted'') log']\<rparr>)"
  by (simp add: processDisputeCrowdsourcerCompletedLog_def asCallback_def db_ok emit_def)

lemma uncompleted_run:
  "faults w = [] \<Longrightarrow> processDisputeCrowdsourcerCompletedLogRemoval trx log' callback w =
     callback None (w\<lparr>tables := (tables w)(''crowdsourcers'' :=
                   map (\<lambda>r. if where_eq [(''crowdsourcerID'', field log' ''disputeCrowdsourcer'')] r
                             then r ++ [''completed'' \<mapsto> Num 0] else r) (tables w ''crowdsourcers'')),
               trace := trace w @ [Sql (Some trx) Update ''crowdsourcers'',
                                   Emit (Str ''DisputeCrowdsourcerCompleted'') log']\<rparr>)"
  by (simp add: processDisputeCrowdsourcerCompletedLogRemoval_def asCallback_def db_ok emit_def)

text \<open>Writing a column and writing its old value back, on the rows of a \<open>where\<close>.\<close>

lemma update_back:
  assumes "k \<notin> fst ` set kvs"
    and "list_all (\<lambda>r. r k = Some v0) (filter (where_eq kvs) xs)"
  shows "map (\<lambda>r. if where_eq kvs r then r ++ [k \<mapsto> v0] else r)
           (map (\<lambda>r. if where_eq kvs r then r ++ [k \<mapsto> v1] else r) xs) = xs"
  using assms by (induction xs) (auto simp: where_eq_other_column fun_upd_idem_iff)

text \<open>Appending a row and deleting by a key that only the new row matches.\<close>

lemma insert_delete_back:
  assumes "filter c xs = []" and "c new"
  shows "filter (\<lambda>r. \<not> c r) (xs @ [new]) = xs"
  using assms by (induction xs) (auto split: if_splits)

subsection \<open>C1: Forward followed by Removal\<close>

text \<open>
  C1, as amended. With every query succeeding, applying the Forward processor of a log
  and then its Removal processor leaves the tables of the store exactly as they were
  \<^item> for an order-cancellation log, when every order with the log's \<open>orderId\<close> is OPEN and
    no \<open>orders_canceled\<close> row has that \<open>orderId\<close>;
  \<^item> for an initial-reporter-redeemed log, when every \<open>initial_reports\<close> row of the log's
    market has \<open>redeemed = false\<close>;
  \<^item> for a dispute-crowdsourcer-contribution log, when no \<open>disputes\<close> row has the log's
    \<open>(transactionHash, logIndex)\<close>;
  \<^item> for a dispute-crowdsourcer-completed log, when every crowdsourcer with the log's
    \<open>disputeCrowdsourcer\<close> id has \<open>completed = 0\<close>.
  The Removal processors write the fixed values OPEN, \<open>false\<close> and \<open>0\<close>; they do not
  restore another prior value.
\<close>

theorem forward_then_removal_restores:
  assumes ok: "faults w = []"
  shows
   "(list_all (\<lambda>r. r ''orderState'' = Some (OrderState ''OPEN''))
        (filter (where_eq [(''orderId'', field log' ''orderId'')]) (tables w ''orders''))
      \<and> filter (where_eq [(''orderId'', field log' ''orderId'')]) (tables w ''orders_canceled'') = []
     \<longrightarrow> tables (snd (processOrderCanceledLogRemoval names log'
                        (snd (processOrderCanceledLog names log' w)))) = tables w)
    \<and> (list_all (\<lambda>r. r ''redeemed'' = Some (Bool False))
        (filter (where_eq [(''marketId'', field log' ''market'')]) (tables w ''initial_reports''))
     \<longrightarrow> tables (snd (processInitialReporterRedeemedLogRemoval names log'
                        (snd (processInitialReporterRedeemedLog names log' w)))) = tables w)
    \<and> (filter (where_eq [(''transactionHash'', field log' ''transactionHash''),
                          (''logIndex'', field log' ''logIndex'')]) (tables w ''disputes'') = []
     \<longrightarrow> tables (snd (processDisputeCrowdsourcerContributionLogRemoval trx log' Pair
                        (snd (processDisputeCrowdsourcerContributionLog trx log' Pair w)))) = tables w)
    \<and> (list_all (\<lambda>r. r ''completed'' = Some (Num 0))
        (filter (where_eq [(''crowdsourcerID'', field log' ''disputeCrowdsourcer'')]) (tables w ''crowdsourcers''))
     \<longrightarrow> tables (snd (processDisputeCrowdsourcerCompletedLogRemoval trx log' Pair
                        (snd (processDisputeCrowdsourcerCompletedLog trx log' Pair w)))) = tables w)"
proof (intro conjI impI)
  assume a: "list_all (\<lambda>r. r ''orderState'' = Some (OrderState ''OPEN''))
        (filter (where_eq [(''orderId'', field log' ''orderId'')]) (tables w ''orders''))
      \<and> filter (where_eq [(''orderId'', field log' ''orderId'')]) (tables w ''orders_canceled'') = []"
  have ok1: "faults (snd (processOrderCanceledLog names log' w)) = []"
    using ok by (rule cancel_faults)
  have o: "map (\<lambda>r. if where_eq [(''orderId'', field log' ''orderId'')] r
                     then r ++ [''orderState'' \<mapsto> OrderState ''OPEN''] else r)
             (map (\<lambda>r. if where_eq [(''orderId'', field log' ''orderId'')] r
                     then r ++ [''orderState'' \<mapsto> OrderState ''CANCELED''] else r) (tables w ''orders''))
           = tables w ''orders''"
    using a by (intro update_back) simp_all
  have c: "filter (\<lambda>r. \<not> where_eq [(''orderId'', field log' ''orderId'')] r)
             (tables w ''orders_canceled'' @
               [[''orderId'' \<mapsto> field log' ''orderId'',
                ''transactionHash'' \<mapsto> field log' ''transactionHash'',
                ''logIndex'' \<mapsto> field log' ''logIndex'',
                ''blockNumber'' \<mapsto> field log' ''blockNumber'']]) = tables w ''orders_canceled''"
    using a by (intro insert_delete_back, simp, simp add: where_eq_def)
  show "tables (snd (processOrderCanceledLogRemoval names log'
                        (snd (processOrderCanceledLog names log' w)))) = tables w"
    by (simp add: uncancel_tables [OF ok1] cancel_tables [OF ok] o c del: filter_append map_map)
next
  assume a: "list_all (\<lambda>r. r ''redeemed'' = Some (Bool False))
        (filter (where_eq [(''marketId'', field log' ''market'')]) (tables w ''initial_reports''))"
  have o: "map (\<lambda>r. if where_eq [(''marketId'', field log' ''market'')] r
                     then r ++ [''redeemed'' \<mapsto> Bool False] else r)
             (map (\<lambda>r. if where_eq [(''marketId'', field log' ''market'')] r
                     then r ++ [''redeemed'' \<mapsto> Bool True] else r) (tables w ''initial_reports''))
           = tables w ''initial_reports''"
    using a by (intro update_back) simp_all
  show "tables (snd (processInitialReporterRedeemedLogRemoval names log'
                        (snd (processInitialReporterRedeemedLog names log' w)))) = tables w"
    by (simp add: redeem_run unredeem_run ok o del: map_map)
next
  assume a: "filter (where_eq [(''transactionHash'', field log' ''transactionHash''),
                          (''logIndex'', field log' ''logIndex'')]) (tables w ''disputes'') = []"
  have c: "filter (\<lambda>r. \<not> where_eq [(''transactionHash'', field log' ''transactionHash''),
                          (''logIndex'', field log' ''logIndex'')] r)
             (tables w ''disputes'' @
                    [[''blockNumber'' \<mapsto> field log' ''blockNumber'',
                      ''transactionHash'' \<mapsto> field log' ''transactionHash'',
                      ''logIndex'' \<mapsto> field log' ''logIndex'',
                      ''reporter'' \<mapsto> field log' ''reporter'',
                      ''crowdsourcerID'' \<mapsto> field log' ''disputeCrowdsourcer'',
                      ''amountStaked'' \<mapsto> field log' ''amountStaked'']]) = tables w ''disputes''"
    using a by (intro insert_delete_back, simp, simp add: where_eq_def)
  show "tables (snd (processDisputeCrowdsourcerContributionLogRemoval trx log' Pair
                        (snd (processDisputeCrowdsourcerContributionLog trx log' Pair w)))) = tables w"
    by (simp add: contribution_run uncontribution_run ok c del: filter_append)
next
  assume a: "list_all (\<lambda>r. r ''completed'' = Some (Num 0))
        (filter (where_eq [(''crowdsourcerID'', field log' ''disputeCrowdsourcer'')]) (tables w ''crowdsourcers''))"
  have o: "map (\<lambda>r. if where_eq [(''crowdsourcerID'', field log' ''disputeCrowdsourcer'')] r
                     then r ++ [''completed'' \<mapsto> Num 0] else r)
             (map (\<lambda>r. if where_eq [(''crowdsourcerID'', field log' ''disputeCrowdsourcer'')] r
                     then r ++ [''completed'' \<mapsto> Num 1] else r) (tables w ''crowdsourcers''))
           = tables w ''crowdsourcers''"
    using a by (intro update_back) simp_all
  show "tables (snd (processDisputeCrowdsourcerCompletedLogRemoval trx log' Pair
                        (snd (processDisputeCrowdsourcerCompletedLog trx log' Pair w)))) = tables w"
    by (simp add: completed_run uncompleted_run ok o del: map_map)
qed

theorem forward_then_removal_restores_witness:
  "faults sample_store = []
   \<and> list_all (\<lambda>r. r ''orderState'' = Some (OrderState ''OPEN''))
        (filter (where_eq [(''orderId'', field sample_log ''orderId'')]) (tables sample_store ''orders''))
   \<and> filter (where_eq [(''orderId'', field sample_log ''orderId'')]) (tables sample_store ''orders_canceled'') = []
   \<and> tables (snd (processOrderCanceledLogRemoval names0 sample_log
                        (snd (processOrderCanceledLog names0 sample_log sample_store)))) = tables sample_store
   \<and> list_all (\<lambda>r. r ''redeemed'' = Some (Bool False))
        (filter (where_eq [(''marketId'', field sample_log ''market'')]) (tables sample_store ''initial_reports''))
   \<and> tables (snd (processInitialReporterRedeemedLogRemoval names0 sample_log
                        (snd (processInitialReporterRedeemedLog names0 sample_log sample_store)))) = tables sample_store
   \<and> filter (where_eq [(''transactionHash'', field sample_log ''transactionHash''),
                          (''logIndex'', field sample_log ''logIndex'')]) (tables sample_store ''disputes'') = []
   \<and> tables (snd (processDisputeCrowdsourcerContributionLogRemoval 1 sample_log Pair
                        (snd (processDisputeCrowdsourcerContributionLog 1 sample_log Pair sample_store)))) = tables sample_store
   \<and> list_all (\<lambda>r. r ''completed'' = Some (Num 0))
        (filter (where_eq [(''crowdsourcerID'', field sample_log ''disputeCrowdsourcer'')]) (tables sample_store ''crowdsourcers''))
   \<and> tables (snd (processDisputeCrowdsourcerCompletedLogRemoval 1 sample_log Pair
                        (snd (processDisputeCrowdsourcerCompletedLog 1 sample_log Pair sample_store)))) = tables sample_store"
proof -
  have h0: "faults sample_store = []"
    by (simp add: sample_store_def empty_world_def)
  have h1: "list_all (\<lambda>r. r ''orderState'' = Some (OrderState ''OPEN''))
        (filter (where_eq [(''orderId'', field sample_log ''orderId'')]) (tables sample_store ''orders''))"
    by (simp add: sample_store_def empty_world_def order_row_def)
  have h2: "filter (where_eq [(''orderId'', field sample_log ''orderId'')]) (tables sample_store ''orders_canceled'') = []"
    by (simp add: sample_store_def empty_world_def)
  have h3: "list_all (\<lambda>r. r ''redeemed'' = Some (Bool False))
        (filter (where_eq [(''marketId'', field sample_log ''market'')]) (tables sample_store ''initial_reports''))"
    by (simp add: sample_store_def empty_world_def)
  have h4: "filter (where_eq [(''transactionHash'', field sample_log ''transactionHash''),
                          (''logIndex'', field sample_log ''logIndex'')]) (tables sample_store ''disputes'') = []"
    by (simp add: sample_store_def empty_world_def)
  have h5: "list_all (\<lambda>r. r ''completed'' = Some (Num 0))
        (filter (where_eq [(''crowdsourcerID'', field sample_log ''disputeCrowdsourcer'')]) (tables sample_store ''crowdsourcers''))"
    by (simp add: sample_store_def empty_world_def)
  show ?thesis
    using forward_then_removal_restores [OF h0, of sample_log names0 1] h0 h1 h2 h3 h4 h5
    by blast
qed

lemma filled_store_orders:
  "map (\<lambda>r. r ''orderState'') (tables (store_with_order (OrderState ''FILLED'')) ''orders'')
     = [Some (Str ''FILLED'')]"
  by (simp add: store_with_order_def empty_world_def order_row_def OrderState_def)

lemma store_with_order_faults: "faults (store_with_order st) = []"
  by (simp add: store_with_order_def empty_world_def)

lemma cancel_log_orderId: "field cancel_log ''orderId'' = Str ''0xABC''"
  by (simp add: cancel_log_def field_def)

lemma store_with_order_match:
  "where_eq [(''orderId'', Str ''0xABC'')] (order_row st)"
  by (simp add: where_eq_def order_row_def)

text \<open>
  The claim as stated fails: a FILLED order is OPEN, not FILLED, after its cancellation
  has been applied and reverted.
\<close>

theorem filled_order_not_restored:
  "tables (snd (processOrderCanceledLogRemoval names0 cancel_log
            (snd (processOrderCanceledLog names0 cancel_log (store_with_order (OrderState ''FILLED''))))))
     \<noteq> tables (store_with_order (OrderState ''FILLED''))
   \<and> map (\<lambda>r. r ''orderState'') (tables (store_with_order (OrderState ''FILLED'')) ''orders'')
       = [Some (Str ''FILLED'')]
   \<and> map (\<lambda>r. r ''orderState'')
       (tables (snd (processOrderCanceledLogRemoval names0 cancel_log
            (snd (processOrderCanceledLog names0 cancel_log (store_with_order (OrderState ''FILLED''))))))
          ''orders'')
       = [Some (Str ''OPEN'')]"
proof -
  let ?w = "store_with_order (OrderState ''FILLED'')"
  let ?w2 = "snd (processOrderCanceledLogRemoval names0 cancel_log
            (snd (processOrderCanceledLog names0 cancel_log ?w)))"
  have after: "map (\<lambda>r. r ''orderState'') (tables ?w2 ''orders'') = [Some (Str ''OPEN'')]"
    by (simp add: uncancel_tables cancel_tables cancel_faults store_with_order_faults cancel_log_orderId)
       (simp add: store_with_order_def empty_world_def store_with_order_match where_eq_other_column OrderState_def)
  have "tables ?w2 \<noteq> tables ?w"
  proof
    assume "tables ?w2 = tables ?w"
    then have "map (\<lambda>r. r ''orderState'') (tables ?w2 ''orders'')
             = map (\<lambda>r. r ''orderState'') (tables ?w ''orders'')"
      by simp
    then show False
      by (simp only: after filled_store_orders) simp
  qed
  then show ?thesis
    using after filled_store_orders by simp
qed

lemma run_query_fault:
  "fst (run_query t v tbl w) = Some e \<Longrightarrow> Some e \<in> set (faults w)"
  by (auto simp: run_query_def split: list.splits)

lemma run_query_faults_subset:
  "set (faults (snd (run_query t v tbl w))) \<subseteq> set (faults w)"
  by (auto simp: run_query_def split: list.splits)

lemma db_update_fault:
  "fst (db_update t tbl c u w) = Inl e \<Longrightarrow> Some e \<in> set (faults w)"
  using run_query_fault [of t Update tbl w e]
  by (auto simp: db_update_def split: prod.splits option.splits)

lemma db_update_faults_subset:
  "set (faults (snd (db_update t tbl c u w))) \<subseteq> set (faults w)"
  using run_query_faults_subset [of t Update tbl w]
  by (auto simp: db_update_def split: prod.splits option.splits)



lemma db_delete_fault:
  "fst (db_delete t tbl c w) = Inl e \<Longrightarrow> Some e \<in> set (faults w)"
  using run_query_fault [of t Delete tbl w e]
  by (auto simp: db_delete_def split: prod.splits option.splits)

lemma db_delete_faults_subset:
  "set (faults (snd (db_delete t tbl c w))) \<subseteq> set (faults w)"
  using run_query_faults_subset [of t Delete tbl w]
  by (auto simp: db_delete_def split: prod.splits option.splits)

lemma db_select_fault:
  "fst (db_select t tbl c w) = Inl e \<Longrightarrow> Some e \<in> set (faults w)"
  using run_query_fault [of t Select tbl w e]
  by (auto simp: db_select_def split: prod.splits option.splits)

lemma db_select_faults_subset:
  "set (faults (snd (db_select t tbl c w))) \<subseteq> set (faults w)"
  using run_query_faults_subset [of t Select tbl w]
  by (auto simp: db_select_def split: prod.splits option.splits)

lemma db_first_fault:
  "fst (db_first t cols tbl c w) = Inl e \<Longrightarrow> Some e \<in> set (faults w)"
  using db_select_fault [of t tbl c w e]
  by (auto simp: db_first_def await_def resolve_def split: prod.splits sum.splits)

lemma db_first_faults_subset:
  "set (faults (snd (db_first t cols tbl c w))) \<subseteq> set (faults w)"
proof (cases "db_select t tbl c w")
  case (Pair r w1)
  with db_select_faults_subset [of t tbl c w] show ?thesis
    by (cases r) (simp_all add: db_first_def await_def resolve_def)
qed

text \<open>An awaited step that can only reject with a fault of the database, followed by such a rest.\<close>

lemma await_fault:
  assumes "fst (await p k w) = Inl e"
    and "\<And>e. fst (p w) = Inl e \<Longrightarrow> Some e \<in> set (faults w)"
    and "set (faults (snd (p w))) \<subseteq> set (faults w)"
    and "\<And>x e. fst (k x (snd (p w))) = Inl e \<Longrightarrow> Some e \<in> set (faults (snd (p w)))"
  shows "Some e \<in> set (faults w)"
proof (cases "p w")
  case (Pair r w1)
  show ?thesis
  proof (cases r)
    case (Inl e')
    with Pair assms(1) have "e' = e" by (simp add: await_def)
    with Pair Inl assms(2) [of e] show ?thesis by simp
  next
    case (Inr x)
    with Pair assms(1) have "fst (k x w1) = Inl e" by (simp add: await_def)
    with Pair assms(4) [of x e] have "Some e \<in> set (faults w1)" by simp
    with Pair assms(3) show ?thesis by auto
  qed
qed

lemma uncancel_fault:
  assumes "fst (processOrderCanceledLogRemoval names log' w) = Inl e"
  shows "Some e \<in> set (faults w)"
  using assms unfolding processOrderCanceledLogRemoval_def Let_def
  apply (rule await_fault)
    apply (erule db_update_fault)
   apply (rule db_update_faults_subset)
  apply (erule await_fault)
    apply (erule db_delete_fault)
   apply (rule db_delete_faults_subset)
  apply (erule await_fault)
    apply (erule db_first_fault)
   apply (rule db_first_faults_subset)
  apply (simp add: resolve_def)
  done

lemma field_pick: "c \<in> set cols \<Longrightarrow> field (pick cols r) c = field r c"
  by (induction cols) (auto simp: pick_def field_def)

lemma complete_sets_run:
  fixes names tick conv log' w m ms
  defines "row \<equiv>
     [''marketId'' \<mapsto> field log' ''market'',
      ''account'' \<mapsto> field log' ''account'',
      ''blockNumber'' \<mapsto> field log' ''blockNumber'',
      ''universe'' \<mapsto> field log' ''universe'',
      ''eventName'' \<mapsto> field log' ''eventName'',
      ''transactionHash'' \<mapsto> field log' ''transactionHash'',
      ''logIndex'' \<mapsto> field log' ''logIndex'',
      ''tradeGroupId'' \<mapsto> field log' ''tradeGroupId'',
      ''numCompleteSets'' \<mapsto> conv (field log' ''numCompleteSets'')
          (tick (field m ''numTicks'') (field m ''minPrice'') (field m ''maxPrice'')),
      ''numPurchasedOrSold'' \<mapsto> conv (field log' ''numCompleteSets'')
          (tick (field m ''numTicks'') (field m ''minPrice'') (field m ''maxPrice''))]"
  assumes ok: "faults w = []"
    and m: "filter (where_eq [(''marketId'', field log' ''market'')]) (tables w ''markets'') = m # ms"
  shows "processCompleteSetsPurchasedOrSoldLog names tick conv log' w =
     (Inr (), w\<lparr>tables := (tables w)(''completeSets'' := tables w ''completeSets'' @ [row]),
               trace := trace w @ [Sql None Select ''markets'', Sql None Insert ''completeSets'',
                                   Emit (lookup_name names (field log' ''eventName'')) row],
               pending := pending w @ [field log' ''market'']\<rparr>)"
  unfolding row_def
  by (simp add: processCompleteSetsPurchasedOrSoldLog_def await_def db_ok resolve_def emit_def
        unawaited_updateOpenInterest_def Let_def ok m field_pick)

subsection \<open>C2: no precondition is checked\<close>

text \<open>
  C2, as amended. The Removal processor of an order-cancellation log checks no
  precondition. When its queries succeed it resolves whatever the state of the order and
  whether or not a cancellation record exists: every order with the log's \<open>orderId\<close> is
  written OPEN and every \<open>orders_canceled\<close> row with that \<open>orderId\<close> is deleted. It raises
  no error of its own: when it rejects, the error is the one a rejected query gave.
\<close>

theorem removal_checks_no_precondition:
  "(faults w = [] \<longrightarrow>
      fst (processOrderCanceledLogRemoval names log' w) = Inr ()
    \<and> tables (snd (processOrderCanceledLogRemoval names log' w)) =
        (tables w)
          (''orders'' := map (\<lambda>r. if where_eq [(''orderId'', field log' ''orderId'')] r
                                    then r ++ [''orderState'' \<mapsto> OrderState ''OPEN''] else r)
                           (tables w ''orders''),
           ''orders_canceled'' := filter (\<lambda>r. \<not> where_eq [(''orderId'', field log' ''orderId'')] r)
                                    (tables w ''orders_canceled'')))
   \<and> (fst (processOrderCanceledLogRemoval names log' w) = Inl e \<longrightarrow> Some e \<in> set (faults w))"
  using uncancel_ok [of w names log'] uncancel_tables [of w names log'] uncancel_fault [of names log' w e]
  by blast

lemma failing_store_removal:
  "fst (processOrderCanceledLogRemoval names0 cancel_log failing_store) = Inl (Error ''SQLITE_BUSY'')"
  by (simp add: processOrderCanceledLogRemoval_def await_def db_update_def run_query_def
        failing_store_def Let_def)

theorem removal_checks_no_precondition_witness:
  "faults (store_with_order (OrderState ''FILLED'')) = []
   \<and> fst (processOrderCanceledLogRemoval names0 cancel_log (store_with_order (OrderState ''FILLED''))) = Inr ()
   \<and> fst (processOrderCanceledLogRemoval names0 cancel_log failing_store) = Inl (Error ''SQLITE_BUSY'')
   \<and> Some (Error ''SQLITE_BUSY'') \<in> set (faults failing_store)"
  using removal_checks_no_precondition
          [of "store_with_order (OrderState ''FILLED'')" names0 cancel_log "Error ''SQLITE_BUSY''"]
        removal_checks_no_precondition [of failing_store names0 cancel_log "Error ''SQLITE_BUSY''"]
        store_with_order_faults [of "OrderState ''FILLED''"] failing_store_removal
  by blast

text \<open>
  The claim as stated fails: reverting the cancellation of an order that is FILLED and has
  no cancellation record resolves, and the order is OPEN afterwards.
\<close>

theorem removal_of_filled_order_resolves:
  "map (\<lambda>r. r ''orderState'') (tables (store_with_order (OrderState ''FILLED'')) ''orders'')
       = [Some (Str ''FILLED'')]
   \<and> tables (store_with_order (OrderState ''FILLED'')) ''orders_canceled'' = []
   \<and> fst (processOrderCanceledLogRemoval names0 cancel_log (store_with_order (OrderState ''FILLED''))) = Inr ()
   \<and> map (\<lambda>r. r ''orderState'')
        (tables (snd (processOrderCanceledLogRemoval names0 cancel_log (store_with_order (OrderState ''FILLED''))))
           ''orders'')
       = [Some (Str ''OPEN'')]"
proof -
  have "map (\<lambda>r. r ''orderState'')
        (tables (snd (processOrderCanceledLogRemoval names0 cancel_log (store_with_order (OrderState ''FILLED''))))
           ''orders'')
       = [Some (Str ''OPEN'')]"
    by (simp add: uncancel_tables store_with_order_faults cancel_log_orderId)
       (simp add: store_with_order_def empty_world_def store_with_order_match OrderState_def)
  moreover have "tables (store_with_order (OrderState ''FILLED'')) ''orders_canceled'' = []"
    by (simp add: store_with_order_def empty_world_def)
  ultimately show ?thesis
    using filled_store_orders uncancel_ok [OF store_with_order_faults] by simp
qed


lemma complete_sets_faults:
  assumes "faults w = []"
  shows "faults (snd (processCompleteSetsPurchasedOrSoldLog names tick conv log' w)) = []"
proof (cases "filter (where_eq [(''marketId'', field log' ''market'')]) (tables w ''markets'')")
  case Nil
  with assms show ?thesis
    by (simp add: processCompleteSetsPurchasedOrSoldLog_def await_def db_ok resolve_def throw_def Let_def)
next
  case (Cons m ms)
  with assms show ?thesis
    by (simp add: complete_sets_run)
qed

lemma market_store_faults: "faults market_store = []"
  by (simp add: market_store_def empty_world_def)

lemma market_store_market:
  "filter (where_eq [(''marketId'', field sets_log ''market'')]) (tables market_store ''markets'') = [market_row]"
  by (simp add: market_store_def empty_world_def sets_log_def field_def market_row_def where_eq_def)












subsection \<open>C3: the same Forward log applied twice\<close>





subsection \<open>C9: a complete-sets log for an unknown market\<close>

text \<open>
  C9. If the \<open>markets\<close> table has no row for the market of a complete-sets log, the Forward
  processor rejects, and it has done nothing but the one \<open>select\<close> on \<open>markets\<close>: the
  tables (the \<open>completeSets\<close> rows and the open-interest column among them) are
  unchanged, no recomputation of the open interest has been started and no event has
  been published. When the \<open>select\<close> itself succeeds, the error is the processor's own
  "not found" error.
\<close>

theorem missing_market_rejects_before_mutation:
  assumes none: "filter (where_eq [(''marketId'', field log' ''market'')]) (tables w ''markets'') = []"
  shows "isl (fst (processCompleteSetsPurchasedOrSoldLog names tick conv log' w))
    \<and> tables (snd (processCompleteSetsPurchasedOrSoldLog names tick conv log' w)) = tables w
    \<and> pending (snd (processCompleteSetsPurchasedOrSoldLog names tick conv log' w)) = pending w
    \<and> effects w (snd (processCompleteSetsPurchasedOrSoldLog names tick conv log' w))
         = [Sql None Select ''markets'']
    \<and> (faults w = [] \<longrightarrow>
          fst (processCompleteSetsPurchasedOrSoldLog names tick conv log' w)
            = Inl (Error ''market min price, max price, category, and/or num ticks not found''))"
proof (cases "faults w")
  case Nil
  with none show ?thesis
    by (simp add: processCompleteSetsPurchasedOrSoldLog_def await_def db_ok resolve_def throw_def
          Let_def effects_def)
next
  case (Cons f fs)
  with none show ?thesis
    by (cases f)
       (simp_all add: processCompleteSetsPurchasedOrSoldLog_def await_def db_first_def db_select_def
          run_query_def resolve_def throw_def Let_def effects_def)
qed

theorem missing_market_rejects_before_mutation_witness:
  "filter (where_eq [(''marketId'', field sets_log ''market'')]) (tables empty_world ''markets'') = []
   \<and> faults empty_world = []
   \<and> fst (processCompleteSetsPurchasedOrSoldLog names0 tick0 display0 sets_log empty_world)
       = Inl (Error ''market min price, max price, category, and/or num ticks not found'')
   \<and> tables (snd (processCompleteSetsPurchasedOrSoldLog names0 tick0 display0 sets_log empty_world))
       = tables empty_world"
proof -
  have h: "filter (where_eq [(''marketId'', field sets_log ''market'')]) (tables empty_world ''markets'') = []"
    by (simp add: empty_world_def)
  have h0: "faults empty_world = []"
    by (simp add: empty_world_def)
  show ?thesis
    using missing_market_rejects_before_mutation [OF h, of names0 tick0 display0] h h0
    by blast
qed

lemma updateOpenInterest_run:
  "faults w = [] \<Longrightarrow> updateOpenInterest m w =
     (Inr (), w\<lparr>tables := (tables w)(''markets'' :=
                   map (\<lambda>r. if where_eq [(''marketId'', m)] r
                             then r ++ [''openInterest'' \<mapsto>
                                    Num (sum_list (map (\<lambda>r. num_of (field r ''numCompleteSets''))
                                      (filter (where_eq [(''marketId'', m)]) (tables w ''completeSets''))))]
                             else r) (tables w ''markets'')),
               trace := trace w @ [Sql None Select ''completeSets'', Sql None Update ''markets'']\<rparr>)"
  by (simp add: updateOpenInterest_def await_def db_ok)

lemma complete_sets_removal_run:
  fixes names log' w
  defines "rest \<equiv> filter (\<lambda>r. \<not> where_eq [(''transactionHash'', field log' ''transactionHash''),
                                           (''logIndex'', field log' ''logIndex'')] r)
                      (tables w ''completeSets'')"
  assumes ok: "faults w = []"
  shows "processCompleteSetsPurchasedOrSoldLogRemoval names log' w =
     (Inr (), w\<lparr>tables := (tables w)
                  (''completeSets'' := rest,
                   ''markets'' :=
                     map (\<lambda>r. if where_eq [(''marketId'', field log' ''market'')] r
                               then r ++ [''openInterest'' \<mapsto>
                                      Num (sum_list (map (\<lambda>r. num_of (field r ''numCompleteSets''))
                                        (filter (where_eq [(''marketId'', field log' ''market'')]) rest)))]
                               else r) (tables w ''markets'')),
               trace := trace w @ [Sql None Delete ''completeSets'',
                                   Emit (lookup_name names (field log' ''eventName'')) log',
                                   Sql None Select ''completeSets'', Sql None Update ''markets'']\<rparr>)"
  unfolding rest_def
  by (simp add: processCompleteSetsPurchasedOrSoldLogRemoval_def await_def db_ok resolve_def emit_def
        updateOpenInterest_run Let_def ok cong: if_cong)

lemma effects_append: "trace w' = trace w @ es \<Longrightarrow> effects w w' = es"
  by (simp add: effects_def)

lemma sets_log_fields:
  "field sets_log ''market'' = Str ''0xM''"
  "field sets_log ''numCompleteSets'' = Num 100000000000000000"
  "field sets_log ''transactionHash'' = Str ''0xT1''"
  "field sets_log ''logIndex'' = Num 0"
  by (simp_all add: sets_log_def field_def)

lemma market_row_fields:
  "field market_row ''numTicks'' = Num 100"
  "field market_row ''minPrice'' = Num 0"
  "field market_row ''maxPrice'' = Num 1"
  "market_row ''openInterest'' = Some (Num 0)"
  "market_row ''marketId'' = Some (Str ''0xM'')"
  by (simp_all add: market_row_def field_def)

lemma market_store_tables:
  "tables market_store ''markets'' = [market_row]"
  "tables market_store ''completeSets'' = []"
  "pending market_store = []"
  by (simp_all add: market_store_def empty_world_def)

subsection \<open>C4: the open interest after a complete-sets log\<close>

text \<open>
  C4 (the code departs from the claim). The Removal processor awaits
  \<open>updateOpenInterest\<close>; the Forward processor calls it and drops the promise. When the
  Forward processor resolves, the fill row is stored and the recomputation has not run:
  on a market with no fills and open interest 0, after a purchase of 10 (display units)
  the stored fills sum to 10 and the open interest is still 0. It is 10 only once the
  pending call has run.
\<close>

theorem forward_leaves_open_interest_stale:
  "fst (processCompleteSetsPurchasedOrSoldLog names0 tick0 display0 sets_log market_store) = Inr ()
   \<and> map (\<lambda>r. r ''numCompleteSets'')
        (tables (snd (processCompleteSetsPurchasedOrSoldLog names0 tick0 display0 sets_log market_store))
           ''completeSets'') = [Some (Num 10)]
   \<and> map (\<lambda>r. r ''openInterest'')
        (tables (snd (processCompleteSetsPurchasedOrSoldLog names0 tick0 display0 sets_log market_store))
           ''markets'') = [Some (Num 0)]
   \<and> pending (snd (processCompleteSetsPurchasedOrSoldLog names0 tick0 display0 sets_log market_store))
        = [Str ''0xM'']
   \<and> map (\<lambda>r. r ''openInterest'')
        (tables (run_pending
           (snd (processCompleteSetsPurchasedOrSoldLog names0 tick0 display0 sets_log market_store)))
           ''markets'') = [Some (Num 10)]"
  by (simp only: complete_sets_run [OF market_store_faults market_store_market])
     (simp add: market_store_tables market_store_faults sets_log_fields market_row_fields
        tick0_def display0_def run_pending_def updateOpenInterest_run where_eq_def field_def
        sets_log_def market_row_def)

text \<open>
  The Removal processor, for comparison: it deletes the rows with the log's
  \<open>(transactionHash, logIndex)\<close> and no other row, and when it resolves the open interest of
  the log's market is the sum of the fills of that market that are still stored.
\<close>

lemma removal_deletes_by_key_and_recomputes:
  fixes names :: "string \<Rightarrow> jsval" and log' :: obj and w :: world
  defines "w' \<equiv> snd (processCompleteSetsPurchasedOrSoldLogRemoval names log' w)"
  assumes ok: "faults w = []"
  shows "tables w' ''completeSets''
           = filter (\<lambda>r. \<not> where_eq [(''transactionHash'', field log' ''transactionHash''),
                                       (''logIndex'', field log' ''logIndex'')] r)
               (tables w ''completeSets'')
       \<and> list_all (\<lambda>r. r ''openInterest'' =
              Some (Num (sum_list (map (\<lambda>r. num_of (field r ''numCompleteSets''))
                (filter (where_eq [(''marketId'', field log' ''market'')]) (tables w' ''completeSets''))))))
            (filter (where_eq [(''marketId'', field log' ''market'')]) (tables w' ''markets''))"
  unfolding w'_def
  by (simp add: complete_sets_removal_run [OF ok] filter_where_updated list_all_iff)

text \<open>The Forward processor reaches the same state only once the pending call has run.\<close>

lemma forward_recomputes_when_pending_runs:
  fixes names :: "string \<Rightarrow> jsval" and log' :: obj and w :: world
    and tick :: "jsval \<Rightarrow> jsval \<Rightarrow> jsval \<Rightarrow> jsval" and conv :: "jsval \<Rightarrow> jsval \<Rightarrow> jsval"
  defines "w' \<equiv> run_pending (snd (processCompleteSetsPurchasedOrSoldLog names tick conv log' w))"
  assumes ok: "faults w = []" and idle: "pending w = []"
    and m: "filter (where_eq [(''marketId'', field log' ''market'')]) (tables w ''markets'') \<noteq> []"
  shows "list_all (\<lambda>r. r ''openInterest'' =
              Some (Num (sum_list (map (\<lambda>r. num_of (field r ''numCompleteSets''))
                (filter (where_eq [(''marketId'', field log' ''market'')]) (tables w' ''completeSets''))))))
            (filter (where_eq [(''marketId'', field log' ''market'')]) (tables w' ''markets''))"
proof -
  from m obtain r rs where
    r: "filter (where_eq [(''marketId'', field log' ''market'')]) (tables w ''markets'') = r # rs"
    by (cases "filter (where_eq [(''marketId'', field log' ''market'')]) (tables w ''markets'')") auto
  show ?thesis
    unfolding w'_def
    by (simp add: complete_sets_run [OF ok r] run_pending_def idle ok updateOpenInterest_run
          filter_where_updated list_all_iff)
qed

subsection \<open>C8: when the event is published\<close>

text \<open>
  C8, as amended. No processor commits, and every processor publishes its event itself,
  before it resolves or calls its callback: the event is out before the caller can
  commit. With every query succeeding, the order-cancellation and
  initial-reporter-redeemed processors publish after all of their queries; the
  dispute-contribution and dispute-completed processors publish after their one query
  and then call the callback; the complete-sets processors publish right after the fill
  row is inserted or deleted, and the Removal processor runs the queries of the
  open-interest recomputation after the event is out.
\<close>

theorem event_published_inside_processor:
  assumes ok: "faults w = []"
  shows
   "map query_of (effects w (snd (processOrderCanceledLog names log' w)))
      = [Some (None, Update, ''orders''), Some (None, Insert, ''orders_canceled''),
         Some (None, Select, ''orders''), None]
    \<and> map query_of (effects w (snd (processOrderCanceledLogRemoval names log' w)))
      = [Some (None, Update, ''orders''), Some (None, Delete, ''orders_canceled''),
         Some (None, Select, ''orders''), None]
    \<and> map query_of (effects w (snd (processInitialReporterRedeemedLog names log' w)))
      = [Some (None, Update, ''initial_reports''), None]
    \<and> map query_of (effects w (snd (processInitialReporterRedeemedLogRemoval names log' w)))
      = [Some (None, Update, ''initial_reports''), None]
    \<and> (filter (where_eq [(''marketId'', field log' ''market'')]) (tables w ''markets'') \<noteq> [] \<longrightarrow>
         take 3 (map query_of
           (effects w (snd (processCompleteSetsPurchasedOrSoldLog names tick conv log' w))))
          = [Some (None, Select, ''markets''), Some (None, Insert, ''completeSets''), None])
    \<and> map query_of (effects w (snd (processCompleteSetsPurchasedOrSoldLogRemoval names log' w)))
      = [Some (None, Delete, ''completeSets''), None,
         Some (None, Select, ''completeSets''), Some (None, Update, ''markets'')]
    \<and> processDisputeCrowdsourcerContributionLog trx log' callback w
      = callback None (snd (processDisputeCrowdsourcerContributionLog trx log' Pair w))
    \<and> map query_of (effects w (snd (processDisputeCrowdsourcerContributionLog trx log' Pair w)))
      = [Some (Some trx, Insert, ''disputes''), None]
    \<and> processDisputeCrowdsourcerContributionLogRemoval trx log' callback w
      = callback None (snd (processDisputeCrowdsourcerContributionLogRemoval trx log' Pair w))
    \<and> map query_of (effects w (snd (processDisputeCrowdsourcerContributionLogRemoval trx log' Pair w)))
      = [Some (Some trx, Delete, ''disputes''), None]
    \<and> processDisputeCrowdsourcerCompletedLog trx log' callback w
      = callback None (snd (processDisputeCrowdsourcerCompletedLog trx log' Pair w))
    \<and> map query_of (effects w (snd (processDisputeCrowdsourcerCompletedLog trx log' Pair w)))
      = [Some (Some trx, Update, ''crowdsourcers''), None]
    \<and> processDisputeCrowdsourcerCompletedLogRemoval trx log' callback w
      = callback None (snd (processDisputeCrowdsourcerCompletedLogRemoval trx log' Pair w))
    \<and> map query_of (effects w (snd (processDisputeCrowdsourcerCompletedLogRemoval trx log' Pair w)))
      = [Some (Some trx, Update, ''crowdsourcers''), None]"
proof -
  have sets: "take 3 (map query_of
           (effects w (snd (processCompleteSetsPurchasedOrSoldLog names tick conv log' w))))
          = [Some (None, Select, ''markets''), Some (None, Insert, ''completeSets''), None]"
    if "filter (where_eq [(''marketId'', field log' ''market'')]) (tables w ''markets'') \<noteq> []"
  proof -
    from that obtain m ms where
      m: "filter (where_eq [(''marketId'', field log' ''market'')]) (tables w ''markets'') = m # ms"
      by (cases "filter (where_eq [(''marketId'', field log' ''market'')]) (tables w ''markets'')") auto
    show ?thesis
      by (simp add: complete_sets_run [OF ok m] effects_def)
  qed
  show ?thesis
    using sets
    by (simp add: cancel_trace [OF ok] uncancel_trace [OF ok]
          redeem_run [OF ok] unredeem_run [OF ok] complete_sets_removal_run [OF ok]
          contribution_run [OF ok] uncontribution_run [OF ok] completed_run [OF ok]
          uncompleted_run [OF ok] effects_def)
qed

theorem event_published_inside_processor_witness:
  "faults market_store = []
   \<and> filter (where_eq [(''marketId'', field sets_log ''market'')]) (tables market_store ''markets'') \<noteq> []
   \<and> take 3 (map query_of
         (effects market_store
            (snd (processCompleteSetsPurchasedOrSoldLog names0 tick0 display0 sets_log market_store))))
        = [Some (None, Select, ''markets''), Some (None, Insert, ''completeSets''), None]
   \<and> faults (store_with_order (OrderState ''OPEN'')) = []
   \<and> map query_of (effects (store_with_order (OrderState ''OPEN''))
         (snd (processOrderCanceledLog names0 cancel_log (store_with_order (OrderState ''OPEN'')))))
      = [Some (None, Update, ''orders''), Some (None, Insert, ''orders_canceled''),
         Some (None, Select, ''orders''), None]"
proof -
  have h1: "filter (where_eq [(''marketId'', field sets_log ''market'')]) (tables market_store ''markets'') \<noteq> []"
    by (simp add: market_store_market)
  show ?thesis
    using event_published_inside_processor [OF market_store_faults, of names0 sets_log tick0 display0]
      event_published_inside_processor
        [where w = "store_with_order (OrderState ''OPEN'')" and names = names0 and log' = cancel_log
           and tick = tick0 and conv = display0]
      market_store_faults store_with_order_faults [of "OrderState ''OPEN''"] h1
    by blast
qed

lemma run_pending_after_forward:
  "faults (run_pending
     (snd (processCompleteSetsPurchasedOrSoldLog names0 tick0 display0 sets_log market_store))) = []"
  "pending (run_pending
     (snd (processCompleteSetsPurchasedOrSoldLog names0 tick0 display0 sets_log market_store))) = []"
  by (simp_all add: complete_sets_run [OF market_store_faults market_store_market]
        run_pending_def updateOpenInterest_run market_store_faults market_store_tables)

text \<open>
  The claim as stated fails. Applying a complete-sets log, the processor has published
  the event when it resolves, while the recomputation of the open interest is still
  pending. Reverting the log once that pending call has run, the processor publishes
  the event (its second effect) before it issues the queries that recompute the open
  interest (the third and fourth). Neither commits.
\<close>

theorem event_precedes_recomputation:
  "map query_of
     (effects market_store
        (snd (processCompleteSetsPurchasedOrSoldLog names0 tick0 display0 sets_log market_store)))
   = [Some (None, Select, ''markets''), Some (None, Insert, ''completeSets''), None]
   \<and> pending (snd (processCompleteSetsPurchasedOrSoldLog names0 tick0 display0 sets_log market_store))
   = [Str ''0xM'']
   \<and> map query_of
     (effects
        (run_pending
           (snd (processCompleteSetsPurchasedOrSoldLog names0 tick0 display0 sets_log market_store)))
        (snd (processCompleteSetsPurchasedOrSoldLogRemoval names0 sets_log
               (run_pending
                  (snd (processCompleteSetsPurchasedOrSoldLog names0 tick0 display0 sets_log
                         market_store))))))
   = [Some (None, Delete, ''completeSets''), None,
      Some (None, Select, ''completeSets''), Some (None, Update, ''markets'')]"
proof -
  have fwd: "map query_of
     (effects market_store
        (snd (processCompleteSetsPurchasedOrSoldLog names0 tick0 display0 sets_log market_store)))
   = [Some (None, Select, ''markets''), Some (None, Insert, ''completeSets''), None]
   \<and> pending (snd (processCompleteSetsPurchasedOrSoldLog names0 tick0 display0 sets_log market_store))
   = [Str ''0xM'']"
    by (simp add: complete_sets_run [OF market_store_faults market_store_market] effects_def
          market_store_tables sets_log_fields)
  show ?thesis
    using fwd by (simp add: complete_sets_removal_run [OF run_pending_after_forward(1)] effects_def)
qed

lemma uncancel_after_cancel_published:
  assumes ok: "faults w = []"
  shows "published (snd (processOrderCanceledLog names log' w))
           (snd (processOrderCanceledLogRemoval names log' (snd (processOrderCanceledLog names log' w))))
         = published w (snd (processOrderCanceledLog names log' w))"
proof -
  let ?w1 = "snd (processOrderCanceledLog names log' w)"
  have ok1: "faults ?w1 = []"
    using ok by (rule cancel_faults)
  have o1: "filter (where_eq [(''orderId'', field log' ''orderId'')]) (tables ?w1 ''orders'')
     = map (\<lambda>r. r(''orderState'' \<mapsto> OrderState ''CANCELED''))
         (filter (where_eq [(''orderId'', field log' ''orderId'')]) (tables w ''orders''))"
    by (simp add: cancel_tables [OF ok] filter_where_updated)
  show ?thesis
    by (cases "filter (where_eq [(''orderId'', field log' ''orderId'')]) (tables w ''orders'')")
       (simp_all add: published_append [OF cancel_trace [OF ok]]
          published_append [OF uncancel_trace [OF ok1]] o1 pick_other_column)
qed

subsection \<open>C6: the payloads of the two directions\<close>

text \<open>
  C6, as amended. With every query succeeding, the Removal processor run on the store
  its Forward processor left publishes the very event the Forward processor published
  (same name, same payload, hence the same fields) for an order-cancellation log, an
  initial-reporter-redeemed log, a dispute-contribution log and a dispute-completed log.
  For a complete-sets log the two payloads are not of one shape: the Forward processor
  publishes the fill row it inserted, whose fields are \<open>marketId\<close>, \<open>account\<close>,
  \<open>blockNumber\<close>, \<open>universe\<close>, \<open>eventName\<close>, \<open>transactionHash\<close>, \<open>logIndex\<close>,
  \<open>tradeGroupId\<close>, \<open>numCompleteSets\<close> and \<open>numPurchasedOrSold\<close>; the Removal processor
  publishes the log as it received it.
\<close>

theorem payloads_of_both_directions:
  assumes ok: "faults w = []"
  shows
   "(let w1 = snd (processOrderCanceledLog names log' w)
     in published w1 (snd (processOrderCanceledLogRemoval names log' w1)) = published w w1)
    \<and> (let w1 = snd (processInitialReporterRedeemedLog names log' w)
     in published w1 (snd (processInitialReporterRedeemedLogRemoval names log' w1)) = published w w1)
    \<and> (let w1 = snd (processDisputeCrowdsourcerContributionLog trx log' Pair w)
     in published w1 (snd (processDisputeCrowdsourcerContributionLogRemoval trx log' Pair w1))
          = published w w1)
    \<and> (let w1 = snd (processDisputeCrowdsourcerCompletedLog trx log' Pair w)
     in published w1 (snd (processDisputeCrowdsourcerCompletedLogRemoval trx log' Pair w1))
          = published w w1)
    \<and> (filter (where_eq [(''marketId'', field log' ''market'')]) (tables w ''markets'') \<noteq> [] \<longrightarrow>
        (let w1 = snd (processCompleteSetsPurchasedOrSoldLog names tick conv log' w)
         in shapes (published w w1)
              = [{''marketId'', ''account'', ''blockNumber'', ''universe'', ''eventName'',
                  ''transactionHash'', ''logIndex'', ''tradeGroupId'', ''numCompleteSets'',
                  ''numPurchasedOrSold''}]
          \<and> map snd (published w1 (snd (processCompleteSetsPurchasedOrSoldLogRemoval names log' w1)))
              = [log']))"
proof (intro conjI impI)
  show "let w1 = snd (processOrderCanceledLog names log' w)
     in published w1 (snd (processOrderCanceledLogRemoval names log' w1)) = published w w1"
    unfolding Let_def using ok by (rule uncancel_after_cancel_published)
next
  show "let w1 = snd (processInitialReporterRedeemedLog names log' w)
     in published w1 (snd (processInitialReporterRedeemedLogRemoval names log' w1)) = published w w1"
    by (simp add: Let_def redeem_run unredeem_run ok published_def emitted_append)
next
  show "let w1 = snd (processDisputeCrowdsourcerContributionLog trx log' Pair w)
     in published w1 (snd (processDisputeCrowdsourcerContributionLogRemoval trx log' Pair w1))
          = published w w1"
    by (simp add: Let_def contribution_run uncontribution_run ok published_def emitted_append)
next
  show "let w1 = snd (processDisputeCrowdsourcerCompletedLog trx log' Pair w)
     in published w1 (snd (processDisputeCrowdsourcerCompletedLogRemoval trx log' Pair w1))
          = published w w1"
    by (simp add: Let_def completed_run uncompleted_run ok published_def emitted_append)
next
  assume "filter (where_eq [(''marketId'', field log' ''market'')]) (tables w ''markets'') \<noteq> []"
  then obtain m ms where
    m: "filter (where_eq [(''marketId'', field log' ''market'')]) (tables w ''markets'') = m # ms"
    by (cases "filter (where_eq [(''marketId'', field log' ''market'')]) (tables w ''markets'')") auto
  let ?w1 = "snd (processCompleteSetsPurchasedOrSoldLog names tick conv log' w)"
  have ok1: "faults ?w1 = []"
    using ok by (rule complete_sets_faults)
  have fwd: "shapes (published w ?w1)
              = [{''marketId'', ''account'', ''blockNumber'', ''universe'', ''eventName'',
                  ''transactionHash'', ''logIndex'', ''tradeGroupId'', ''numCompleteSets'',
                  ''numPurchasedOrSold''}]"
    by (simp add: complete_sets_run [OF ok m] published_def emitted_append shapes_def insert_commute)
  have rem: "map snd (published ?w1 (snd (processCompleteSetsPurchasedOrSoldLogRemoval names log' ?w1)))
              = [log']"
    by (simp add: complete_sets_removal_run [OF ok1] published_def emitted_append)
  show "let w1 = snd (processCompleteSetsPurchasedOrSoldLog names tick conv log' w)
         in shapes (published w w1)
              = [{''marketId'', ''account'', ''blockNumber'', ''universe'', ''eventName'',
                  ''transactionHash'', ''logIndex'', ''tradeGroupId'', ''numCompleteSets'',
                  ''numPurchasedOrSold''}]
          \<and> map snd (published w1 (snd (processCompleteSetsPurchasedOrSoldLogRemoval names log' w1)))
              = [log']"
    unfolding Let_def using fwd rem by (rule conjI)
qed

theorem payloads_of_both_directions_witness:
  "faults market_store = []
   \<and> filter (where_eq [(''marketId'', field sets_log ''market'')]) (tables market_store ''markets'') \<noteq> []
   \<and> shapes (published market_store
        (snd (processCompleteSetsPurchasedOrSoldLog names0 tick0 display0 sets_log market_store)))
       = [{''marketId'', ''account'', ''blockNumber'', ''universe'', ''eventName'',
           ''transactionHash'', ''logIndex'', ''tradeGroupId'', ''numCompleteSets'',
           ''numPurchasedOrSold''}]
   \<and> published (snd (processInitialReporterRedeemedLog names0 sets_log market_store))
        (snd (processInitialReporterRedeemedLogRemoval names0 sets_log
               (snd (processInitialReporterRedeemedLog names0 sets_log market_store))))
       = published market_store (snd (processInitialReporterRedeemedLog names0 sets_log market_store))"
proof -
  have h1: "filter (where_eq [(''marketId'', field sets_log ''market'')]) (tables market_store ''markets'') \<noteq> []"
    by (simp add: market_store_market)
  show ?thesis
    using payloads_of_both_directions [OF market_store_faults, of names0 sets_log 1 tick0 display0]
      market_store_faults h1
    unfolding Let_def by blast
qed

text \<open>
  The claim as stated fails: for one and the same complete-sets log the payload of the
  Forward processor has a field \<open>marketId\<close> and the payload of the Removal processor has
  none (it has \<open>market\<close>).
\<close>

theorem complete_sets_payload_shapes_differ:
  "shapes (published market_store
      (snd (processCompleteSetsPurchasedOrSoldLog names0 tick0 display0 sets_log market_store)))
   \<noteq> shapes (published
      (snd (processCompleteSetsPurchasedOrSoldLog names0 tick0 display0 sets_log market_store))
      (snd (processCompleteSetsPurchasedOrSoldLogRemoval names0 sets_log
             (snd (processCompleteSetsPurchasedOrSoldLog names0 tick0 display0 sets_log market_store)))))
   \<and> map (\<lambda>np. snd np ''marketId'') (published market_store
      (snd (processCompleteSetsPurchasedOrSoldLog names0 tick0 display0 sets_log market_store)))
     = [Some (Str ''0xM'')]
   \<and> map (\<lambda>np. snd np ''marketId'') (published
      (snd (processCompleteSetsPurchasedOrSoldLog names0 tick0 display0 sets_log market_store))
      (snd (processCompleteSetsPurchasedOrSoldLogRemoval names0 sets_log
             (snd (processCompleteSetsPurchasedOrSoldLog names0 tick0 display0 sets_log market_store)))))
     = [None]"
proof -
  let ?w1 = "snd (processCompleteSetsPurchasedOrSoldLog names0 tick0 display0 sets_log market_store)"
  let ?w2 = "snd (processCompleteSetsPurchasedOrSoldLogRemoval names0 sets_log ?w1)"
  have ok1: "faults ?w1 = []"
    using market_store_faults by (rule complete_sets_faults)
  have fwd: "map (\<lambda>np. snd np ''marketId'') (published market_store ?w1) = [Some (Str ''0xM'')]"
    by (simp add: complete_sets_run [OF market_store_faults market_store_market]
          published_def emitted_append sets_log_fields)
  have rem: "map (\<lambda>np. snd np ''marketId'') (published ?w1 ?w2) = [None]"
    by (simp add: complete_sets_removal_run [OF ok1] published_def emitted_append)
       (simp add: sets_log_def)
  have "shapes (published market_store ?w1) \<noteq> shapes (published ?w1 ?w2)"
  proof
    assume eq: "shapes (published market_store ?w1) = shapes (published ?w1 ?w2)"
    have "map (\<lambda>np. snd np ''marketId'' = None) (published market_store ?w1)
        = map (\<lambda>s. ''marketId'' \<notin> s) (shapes (published market_store ?w1))"
      by (simp add: shapes_def domIff)
    also have "\<dots> = map (\<lambda>s. ''marketId'' \<notin> s) (shapes (published ?w1 ?w2))"
      by (simp only: eq)
    also have "\<dots> = map (\<lambda>np. snd np ''marketId'' = None) (published ?w1 ?w2)"
      by (simp add: shapes_def domIff)
    finally have "map (\<lambda>v. v = None) (map (\<lambda>np. snd np ''marketId'') (published market_store ?w1))
        = map (\<lambda>v. v = None) (map (\<lambda>np. snd np ''marketId'') (published ?w1 ?w2))"
      by (simp add: comp_def)
    then show False
      by (simp only: fwd rem) simp
  qed
  then show ?thesis
    using fwd rem by simp
qed

subsection \<open>C10: a tick of the node-health monitor whose RPC fails\<close>

text \<open>
  C10. When the \<open>getController\<close> callback is given an error and no controller
  (\<open>universeController\<close> is \<open>undefined\<close>), and an \<open>errorCallback\<close> was supplied, the
  \<open>errorCallback\<close> is called twice on that one tick: first with the RPC error, then with a
  controller-mismatch error naming \<open>undefined\<close> as the controller found. The interval is
  cleared.
\<close>

theorem rpc_error_reported_twice:
  assumes "errorCallback"
  shows "errorCallback_calls (getController_callback controller errorCallback (Some e) None m)
           = errorCallback_calls m @
             [e, Error (''Controller mismatch. Configured: '' @ controller @ '' Found: undefined'')]
       \<and> interval_set (getController_callback controller errorCallback (Some e) None m) = False
       \<and> (universeController \<noteq> Some controller \<longrightarrow>
            length (errorCallback_calls
              (getController_callback controller errorCallback (Some e) universeController m))
            = length (errorCallback_calls m) + 2)"
  using assms
  by (simp add: getController_callback_def call_errorCallback_def clearInterval_def template_def)

theorem rpc_error_reported_twice_witness:
  "errorCallback_calls
     (getController_callback ''0xC0'' True (Some (Error ''timeout'')) None
        \<lparr>interval_set = True, errorCallback_calls = []\<rparr>)
   = [Error ''timeout'', Error ''Controller mismatch. Configured: 0xC0 Found: undefined'']
   \<and> Some ''0xBAD'' \<noteq> Some ''0xC0''
   \<and> length (errorCallback_calls
        (getController_callback ''0xC0'' True (Some (Error ''timeout'')) (Some ''0xBAD'')
           \<lparr>interval_set = True, errorCallback_calls = []\<rparr>)) = 2"
  using rpc_error_reported_twice [of True "''0xC0''" "Error ''timeout''"
          "\<lparr>interval_set = True, errorCallback_calls = []\<rparr>" "Some ''0xBAD''"]
  by simp

lemma foldr_max_upper: "x \<in> set xs \<Longrightarrow> x \<le> foldr max xs (0::rat)"
  by (induction xs) auto

lemma next_payoutID_fresh:
  assumes "r \<in> set rows"
  shows "r ''payoutID'' \<noteq> Some (next_payoutID rows)"
proof
  assume eq: "r ''payoutID'' = Some (next_payoutID rows)"
  let ?ids = "map (\<lambda>r. num_of (field r ''payoutID'')) rows"
  from eq have "num_of (field r ''payoutID'') = 1 + foldr max ?ids 0"
    by (simp add: field_def next_payoutID_def)
  moreover from assms have "num_of (field r ''payoutID'') \<le> foldr max ?ids 0"
    by (intro foldr_max_upper) simp
  ultimately show False by simp
qed

lemma next_payoutID_unused:
  "filter (where_eq [(''payoutID'', next_payoutID rows)]) rows = []"
  by (auto simp: filter_empty_conv where_eq_def dest: next_payoutID_fresh)

lemma insertPayout_found:
  assumes ok: "faults w = []"
    and p: "filter (where_eq [(''marketID'', marketID), (''payoutNumerators'', payoutNumerators),
                              (''isInvalid'', invalid)]) (tables w ''payouts'') = p # ps"
  shows "insertPayout trx marketID payoutNumerators invalid k w =
     k None (field p ''payoutID'') (w\<lparr>trace := trace w @ [Sql (Some trx) Select ''payouts'']\<rparr>)"
  by (simp add: insertPayout_def asCallback_def db_ok ok p field_pick)

lemma insertPayout_new:
  assumes ok: "faults w = []"
    and p: "filter (where_eq [(''marketID'', marketID), (''payoutNumerators'', payoutNumerators),
                              (''isInvalid'', invalid)]) (tables w ''payouts'') = []"
  shows "insertPayout trx marketID payoutNumerators invalid k w =
     k None (next_payoutID (tables w ''payouts''))
       (w\<lparr>tables := (tables w)(''payouts'' := tables w ''payouts'' @
                  [[''payoutID'' \<mapsto> next_payoutID (tables w ''payouts''), ''marketID'' \<mapsto> marketID,
                    ''payoutNumerators'' \<mapsto> payoutNumerators, ''isInvalid'' \<mapsto> invalid]]),
          trace := trace w @ [Sql (Some trx) Select ''payouts'', Sql (Some trx) Insert ''payouts'']\<rparr>)"
  by (simp add: insertPayout_def asCallback_def db_ok ok p Let_def)

lemma created_run_found:
  assumes ok: "faults w = []"
    and p: "filter (where_eq [(''marketID'', field log' ''market''),
                              (''payoutNumerators'', field log' ''payoutNumerators''),
                              (''isInvalid'', field log' ''invalid'')]) (tables w ''payouts'') = p # ps"
  shows "processDisputeCrowdsourcerCreatedLog trx log' callback w =
     callback None
       (w\<lparr>tables := (tables w)(''crowdsourcers'' := tables w ''crowdsourcers'' @
                  [[''blockNumber'' \<mapsto> field log' ''blockNumber'',
                    ''transactionHash'' \<mapsto> field log' ''transactionHash'',
                    ''logIndex'' \<mapsto> field log' ''logIndex'',
                    ''crowdsourcerID'' \<mapsto> field log' ''disputeCrowdsourcer'',
                    ''marketID'' \<mapsto> field log' ''market'',
                    ''size'' \<mapsto> field log' ''size'',
                    ''payoutID'' \<mapsto> field p ''payoutID'']]),
          trace := trace w @ [Sql (Some trx) Select ''payouts'', Sql (Some trx) Insert ''crowdsourcers'',
                              Emit (Str ''DisputeCrowdsourcerCreated'') log']\<rparr>)"
  by (simp add: processDisputeCrowdsourcerCreatedLog_def insertPayout_found [OF ok p]
        asCallback_def db_ok ok emit_def Let_def)

lemma created_run_new:
  assumes ok: "faults w = []"
    and p: "filter (where_eq [(''marketID'', field log' ''market''),
                              (''payoutNumerators'', field log' ''payoutNumerators''),
                              (''isInvalid'', field log' ''invalid'')]) (tables w ''payouts'') = []"
  shows "processDisputeCrowdsourcerCreatedLog trx log' callback w =
     callback None
       (w\<lparr>tables := (tables w)
            (''payouts'' := tables w ''payouts'' @
                  [[''payoutID'' \<mapsto> next_payoutID (tables w ''payouts''),
                    ''marketID'' \<mapsto> field log' ''market'',
                    ''payoutNumerators'' \<mapsto> field log' ''payoutNumerators'',
                    ''isInvalid'' \<mapsto> field log' ''invalid'']],
             ''crowdsourcers'' := tables w ''crowdsourcers'' @
                  [[''blockNumber'' \<mapsto> field log' ''blockNumber'',
                    ''transactionHash'' \<mapsto> field log' ''transactionHash'',
                    ''logIndex'' \<mapsto> field log' ''logIndex'',
                    ''crowdsourcerID'' \<mapsto> field log' ''disputeCrowdsourcer'',
                    ''marketID'' \<mapsto> field log' ''market'',
                    ''size'' \<mapsto> field log' ''size'',
                    ''payoutID'' \<mapsto> next_payoutID (tables w ''payouts'')]]),
          trace := trace w @ [Sql (Some trx) Select ''payouts'', Sql (Some trx) Insert ''payouts'',
                              Sql (Some trx) Insert ''crowdsourcers'',
                              Emit (Str ''DisputeCrowdsourcerCreated'') log']\<rparr>)"
  by (simp add: processDisputeCrowdsourcerCreatedLog_def insertPayout_new [OF ok p]
        asCallback_def db_ok ok emit_def Let_def)

subsection \<open>C7: the payout row of a dispute crowdsourcer\<close>

text \<open>
  C7. With every query succeeding, applying a dispute-crowdsourcer creation log:
  \<^item> if no \<open>payouts\<close> row has the log's \<open>(market, payoutNumerators, invalid)\<close>, exactly one
    payout row is appended; it carries the triple and an id no other payout row has,
    and the crowdsourcer row that is appended carries that id;
  \<^item> if a \<open>payouts\<close> row has the triple, the \<open>payouts\<close> table is left as it is and the
    crowdsourcer row that is appended carries the id of the first such row;
  \<^item> so, after a first creation with an unseen triple, a second creation log with the same
    triple adds no payout row, and both crowdsourcer rows carry the same payout id;
  \<^item> every query of the processor, those of the payout resolution included, goes through
    the transaction handle the processor was given.
\<close>

theorem payout_find_or_create:
  fixes trx trx2 :: nat and log' log2 :: obj and w :: world
  defines "triple \<equiv> where_eq [(''marketID'', field log' ''market''),
                                 (''payoutNumerators'', field log' ''payoutNumerators''),
                                 (''isInvalid'', field log' ''invalid'')]"
  defines "w1 \<equiv> snd (processDisputeCrowdsourcerCreatedLog trx log' Pair w)"
  defines "w2 \<equiv> snd (processDisputeCrowdsourcerCreatedLog trx2 log2 Pair w1)"
  assumes ok: "faults w = []"
  shows
   "(filter triple (tables w ''payouts'') = [] \<longrightarrow>
       fst (processDisputeCrowdsourcerCreatedLog trx log' Pair w) = None
     \<and> (\<exists>p cs. tables w1 ''payouts'' = tables w ''payouts'' @ [p]
            \<and> filter triple (tables w1 ''payouts'') = [p]
            \<and> filter (where_eq [(''payoutID'', field p ''payoutID'')]) (tables w1 ''payouts'') = [p]
            \<and> tables w1 ''crowdsourcers'' = tables w ''crowdsourcers'' @ [cs]
            \<and> cs ''crowdsourcerID'' = Some (field log' ''disputeCrowdsourcer'')
            \<and> cs ''payoutID'' = p ''payoutID'')
     \<and> map query_of (effects w w1)
          = [Some (Some trx, Select, ''payouts''), Some (Some trx, Insert, ''payouts''),
             Some (Some trx, Insert, ''crowdsourcers''), None])
    \<and> (filter triple (tables w ''payouts'') \<noteq> [] \<longrightarrow>
       fst (processDisputeCrowdsourcerCreatedLog trx log' Pair w) = None
     \<and> tables w1 ''payouts'' = tables w ''payouts''
     \<and> (\<exists>cs. tables w1 ''crowdsourcers'' = tables w ''crowdsourcers'' @ [cs]
            \<and> cs ''crowdsourcerID'' = Some (field log' ''disputeCrowdsourcer'')
            \<and> cs ''payoutID'' = Some (field (hd (filter triple (tables w ''payouts''))) ''payoutID''))
     \<and> map query_of (effects w w1)
          = [Some (Some trx, Select, ''payouts''), Some (Some trx, Insert, ''crowdsourcers''), None])
    \<and> (filter triple (tables w ''payouts'') = []
        \<and> field log2 ''market'' = field log' ''market''
        \<and> field log2 ''payoutNumerators'' = field log' ''payoutNumerators''
        \<and> field log2 ''invalid'' = field log' ''invalid'' \<longrightarrow>
       fst (processDisputeCrowdsourcerCreatedLog trx2 log2 Pair w1) = None
     \<and> tables w2 ''payouts'' = tables w1 ''payouts''
     \<and> (\<exists>cs1 cs2. tables w2 ''crowdsourcers'' = tables w ''crowdsourcers'' @ [cs1, cs2]
            \<and> cs1 ''crowdsourcerID'' = Some (field log' ''disputeCrowdsourcer'')
            \<and> cs2 ''crowdsourcerID'' = Some (field log2 ''disputeCrowdsourcer'')
            \<and> cs1 ''payoutID'' = cs2 ''payoutID''))"
proof (intro conjI impI)
  assume new: "filter triple (tables w ''payouts'') = []"
  note run = created_run_new [OF ok new [unfolded triple_def]]
  show "fst (processDisputeCrowdsourcerCreatedLog trx log' Pair w) = None"
    by (simp add: run)
  show "map query_of (effects w w1)
          = [Some (Some trx, Select, ''payouts''), Some (Some trx, Insert, ''payouts''),
             Some (Some trx, Insert, ''crowdsourcers''), None]"
    unfolding w1_def by (simp add: run effects_def)
  let ?p = "[''payoutID'' \<mapsto> next_payoutID (tables w ''payouts''),
             ''marketID'' \<mapsto> field log' ''market'',
             ''payoutNumerators'' \<mapsto> field log' ''payoutNumerators'',
             ''isInvalid'' \<mapsto> field log' ''invalid'']"
  let ?cs = "[''blockNumber'' \<mapsto> field log' ''blockNumber'',
              ''transactionHash'' \<mapsto> field log' ''transactionHash'',
              ''logIndex'' \<mapsto> field log' ''logIndex'',
              ''crowdsourcerID'' \<mapsto> field log' ''disputeCrowdsourcer'',
              ''marketID'' \<mapsto> field log' ''market'',
              ''size'' \<mapsto> field log' ''size'',
              ''payoutID'' \<mapsto> next_payoutID (tables w ''payouts'')]"
  have a: "tables w1 ''payouts'' = tables w ''payouts'' @ [?p]"
    unfolding w1_def by (simp add: run)
  have b: "filter triple (tables w1 ''payouts'') = [?p]"
    using new by (simp add: a) (simp add: triple_def where_eq_def)
  have c: "filter (where_eq [(''payoutID'', field ?p ''payoutID'')]) (tables w1 ''payouts'') = [?p]"
    by (simp add: a field_def next_payoutID_unused) (simp add: where_eq_def)
  have d: "tables w1 ''crowdsourcers'' = tables w ''crowdsourcers'' @ [?cs]"
    unfolding w1_def by (simp add: run)
  have e: "?cs ''crowdsourcerID'' = Some (field log' ''disputeCrowdsourcer'')" by simp
  have f: "?cs ''payoutID'' = ?p ''payoutID''" by simp
  from a b c d e f
  show "\<exists>p cs. tables w1 ''payouts'' = tables w ''payouts'' @ [p]
            \<and> filter triple (tables w1 ''payouts'') = [p]
            \<and> filter (where_eq [(''payoutID'', field p ''payoutID'')]) (tables w1 ''payouts'') = [p]
            \<and> tables w1 ''crowdsourcers'' = tables w ''crowdsourcers'' @ [cs]
            \<and> cs ''crowdsourcerID'' = Some (field log' ''disputeCrowdsourcer'')
            \<and> cs ''payoutID'' = p ''payoutID''"
    by blast
next
  assume "filter triple (tables w ''payouts'') \<noteq> []"
  then obtain p ps where p: "filter triple (tables w ''payouts'') = p # ps"
    by (cases "filter triple (tables w ''payouts'')") auto
  note run = created_run_found [OF ok p [unfolded triple_def]]
  show "fst (processDisputeCrowdsourcerCreatedLog trx log' Pair w) = None"
    by (simp add: run)
  show "tables w1 ''payouts'' = tables w ''payouts''"
    unfolding w1_def by (simp add: run)
  show "map query_of (effects w w1)
          = [Some (Some trx, Select, ''payouts''), Some (Some trx, Insert, ''crowdsourcers''), None]"
    unfolding w1_def by (simp add: run effects_def)
  show "\<exists>cs. tables w1 ''crowdsourcers'' = tables w ''crowdsourcers'' @ [cs]
            \<and> cs ''crowdsourcerID'' = Some (field log' ''disputeCrowdsourcer'')
            \<and> cs ''payoutID'' = Some (field (hd (filter triple (tables w ''payouts''))) ''payoutID'')"
    unfolding w1_def by (simp add: run p)
next
  assume h: "filter triple (tables w ''payouts'') = []
        \<and> field log2 ''market'' = field log' ''market''
        \<and> field log2 ''payoutNumerators'' = field log' ''payoutNumerators''
        \<and> field log2 ''invalid'' = field log' ''invalid''"
  then have new: "filter triple (tables w ''payouts'') = []" by simp
  note run = created_run_new [OF ok new [unfolded triple_def]]
  let ?p = "[''payoutID'' \<mapsto> next_payoutID (tables w ''payouts''),
             ''marketID'' \<mapsto> field log' ''market'',
             ''payoutNumerators'' \<mapsto> field log' ''payoutNumerators'',
             ''isInvalid'' \<mapsto> field log' ''invalid'']"
  have ok1: "faults w1 = []"
    unfolding w1_def by (simp add: run ok)
  have "filter triple (tables w1 ''payouts'') = [?p]"
    unfolding w1_def using new by (simp add: run) (simp add: triple_def where_eq_def)
  with h have p1: "filter (where_eq [(''marketID'', field log2 ''market''),
                              (''payoutNumerators'', field log2 ''payoutNumerators''),
                              (''isInvalid'', field log2 ''invalid'')]) (tables w1 ''payouts'') = ?p # []"
    by (simp add: triple_def)
  note run2 = created_run_found [OF ok1 p1]
  show "fst (processDisputeCrowdsourcerCreatedLog trx2 log2 Pair w1) = None"
    by (simp add: run2)
  show "tables w2 ''payouts'' = tables w1 ''payouts''"
    unfolding w2_def by (simp add: run2)
  show "\<exists>cs1 cs2. tables w2 ''crowdsourcers'' = tables w ''crowdsourcers'' @ [cs1, cs2]
            \<and> cs1 ''crowdsourcerID'' = Some (field log' ''disputeCrowdsourcer'')
            \<and> cs2 ''crowdsourcerID'' = Some (field log2 ''disputeCrowdsourcer'')
            \<and> cs1 ''payoutID'' = cs2 ''payoutID''"
    unfolding w2_def by (simp add: run2) (simp add: w1_def run field_def)
qed

lemma empty_world_faults: "faults empty_world = []"
  by (simp add: empty_world_def)

lemma creation_logs_same_triple:
  "field creation_log2 ''market'' = field creation_log ''market''"
  "field creation_log2 ''payoutNumerators'' = field creation_log ''payoutNumerators''"
  "field creation_log2 ''invalid'' = field creation_log ''invalid''"
  by (simp_all add: creation_log_def creation_log2_def field_def)

lemma first_creation_unseen:
  "filter (where_eq [(''marketID'', field creation_log ''market''),
                     (''payoutNumerators'', field creation_log ''payoutNumerators''),
                     (''isInvalid'', field creation_log ''invalid'')]) (tables empty_world ''payouts'') = []"
  by (simp add: empty_world_def)

lemma first_creation_tables:
  "tables (snd (processDisputeCrowdsourcerCreatedLog 7 creation_log Pair empty_world)) ''payouts''
     = [[''payoutID'' \<mapsto> Num 1, ''marketID'' \<mapsto> field creation_log ''market'',
         ''payoutNumerators'' \<mapsto> field creation_log ''payoutNumerators'',
         ''isInvalid'' \<mapsto> field creation_log ''invalid'']]"
  "map (\<lambda>r. r ''payoutID'')
     (tables (snd (processDisputeCrowdsourcerCreatedLog 7 creation_log Pair empty_world)) ''crowdsourcers'')
     = [Some (Num 1)]"
  "faults (snd (processDisputeCrowdsourcerCreatedLog 7 creation_log Pair empty_world)) = []"
  by (simp_all add: created_run_new [OF empty_world_faults first_creation_unseen])
     (simp_all add: empty_world_def next_payoutID_def)

lemma second_creation_seen:
  "filter (where_eq [(''marketID'', field creation_log2 ''market''),
                     (''payoutNumerators'', field creation_log2 ''payoutNumerators''),
                     (''isInvalid'', field creation_log2 ''invalid'')])
     (tables (snd (processDisputeCrowdsourcerCreatedLog 7 creation_log Pair empty_world)) ''payouts'')
   = [[''payoutID'' \<mapsto> Num 1, ''marketID'' \<mapsto> field creation_log ''market'',
         ''payoutNumerators'' \<mapsto> field creation_log ''payoutNumerators'',
         ''isInvalid'' \<mapsto> field creation_log ''invalid'']]"
  by (simp add: first_creation_tables creation_logs_same_triple where_eq_def)

theorem payout_find_or_create_witness:
  "faults empty_world = []
   \<and> filter (where_eq [(''marketID'', field creation_log ''market''),
                     (''payoutNumerators'', field creation_log ''payoutNumerators''),
                     (''isInvalid'', field creation_log ''invalid'')]) (tables empty_world ''payouts'') = []
   \<and> field creation_log2 ''market'' = field creation_log ''market''
   \<and> field creation_log2 ''payoutNumerators'' = field creation_log ''payoutNumerators''
   \<and> field creation_log2 ''invalid'' = field creation_log ''invalid''
   \<and> faults (snd (processDisputeCrowdsourcerCreatedLog 7 creation_log Pair empty_world)) = []
   \<and> filter (where_eq [(''marketID'', field creation_log2 ''market''),
                     (''payoutNumerators'', field creation_log2 ''payoutNumerators''),
                     (''isInvalid'', field creation_log2 ''invalid'')])
        (tables (snd (processDisputeCrowdsourcerCreatedLog 7 creation_log Pair empty_world)) ''payouts'') \<noteq> []
   \<and> fst (processDisputeCrowdsourcerCreatedLog 8 creation_log2 Pair
            (snd (processDisputeCrowdsourcerCreatedLog 7 creation_log Pair empty_world))) = None
   \<and> tables (snd (processDisputeCrowdsourcerCreatedLog 8 creation_log2 Pair
            (snd (processDisputeCrowdsourcerCreatedLog 7 creation_log Pair empty_world)))) ''payouts''
      = tables (snd (processDisputeCrowdsourcerCreatedLog 7 creation_log Pair empty_world)) ''payouts''
   \<and> map (\<lambda>r. r ''payoutID'')
        (tables (snd (processDisputeCrowdsourcerCreatedLog 8 creation_log2 Pair
            (snd (processDisputeCrowdsourcerCreatedLog 7 creation_log Pair empty_world)))) ''payouts'')
      = [Some (Num 1)]
   \<and> map (\<lambda>r. r ''payoutID'')
        (tables (snd (processDisputeCrowdsourcerCreatedLog 8 creation_log2 Pair
            (snd (processDisputeCrowdsourcerCreatedLog 7 creation_log Pair empty_world)))) ''crowdsourcers'')
      = [Some (Num 1), Some (Num 1)]"
proof -
  let ?w1 = "snd (processDisputeCrowdsourcerCreatedLog 7 creation_log Pair empty_world)"
  let ?w2 = "snd (processDisputeCrowdsourcerCreatedLog 8 creation_log2 Pair ?w1)"
  have seen: "filter (where_eq [(''marketID'', field creation_log2 ''market''),
                     (''payoutNumerators'', field creation_log2 ''payoutNumerators''),
                     (''isInvalid'', field creation_log2 ''invalid'')]) (tables ?w1 ''payouts'') \<noteq> []"
    by (simp add: second_creation_seen)
  have general: "fst (processDisputeCrowdsourcerCreatedLog 8 creation_log2 Pair ?w1) = None
      \<and> tables ?w2 ''payouts'' = tables ?w1 ''payouts''"
    using payout_find_or_create [where w = empty_world and log' = creation_log and trx = 7
            and ?log2.0 = creation_log2 and ?trx2.0 = 8, OF empty_world_faults]
          payout_find_or_create [where w = ?w1 and log' = creation_log2 and trx = 8
            and ?log2.0 = creation_log2 and ?trx2.0 = 8, OF first_creation_tables(3)]
          first_creation_unseen creation_logs_same_triple seen
    by blast
  have p2: "map (\<lambda>r. r ''payoutID'') (tables ?w2 ''payouts'') = [Some (Num 1)]"
    using general by (simp add: first_creation_tables)
  have c2: "map (\<lambda>r. r ''payoutID'') (tables ?w2 ''crowdsourcers'') = [Some (Num 1), Some (Num 1)]"
    by (simp add: created_run_found [OF first_creation_tables(3) second_creation_seen]
          first_creation_tables field_def)
  show ?thesis
    using general p2 c2 seen empty_world_faults first_creation_unseen creation_logs_same_triple
      first_creation_tables(3)
    by simp
qed

end
